theory Spec2Isabelle
  imports Complex_Main
begin

section \<open>The notebook kernel and the external library\<close>

text \<open>
  The repository is the notebook \<^verbatim>\<open>2-differentiable-quantum-computing.ipynb\<close>. Its cells
  run in one Python kernel and call PennyLane. The kernel is modelled as a record that is
  passed through every call: the global variables of the notebook, the state vector held
  by the device object \<^verbatim>\<open>dev\<close>, what was printed, and the files of the working directory.
  An unbound variable is \<open>None\<close>; reading it raises \<^verbatim>\<open>NameError\<close>. Python passes
  references: the arguments of a call are the objects that the variables name, so a call
  that changed an argument would change the variable holding it. Python floats are
  idealised as \<open>real\<close>, and a weight tensor of a fixed shape as an element of a real
  vector space.
\<close>

datatype error = NameError string | ZeroDivisionError | External string

type_synonym statevector = "complex list"

type_synonym 'x dataset = "('x \<times> real) list"

record ('x, 'w) kernel =
  bound :: "string set"
  var_w :: "'w option"
  var_b :: "real option"
  var_data :: "'x dataset option"
  var_w_new :: "'w option"
  var_b_new :: "real option"
  var_opt :: "real option"
  device :: statevector
  stdout :: "real list"
  files :: "string \<rightharpoonup> string"

text \<open>
  \<open>bound\<close> holds the names bound to modules, devices and functions (\<^verbatim>\<open>qml\<close>, \<^verbatim>\<open>dev\<close>,
  \<^verbatim>\<open>average_loss\<close>); the \<open>var_\<close> fields are the data variables \<^verbatim>\<open>w\<close>, \<^verbatim>\<open>b\<close>, \<^verbatim>\<open>data\<close>,
  \<^verbatim>\<open>w_new\<close>, \<^verbatim>\<open>b_new\<close> and the step size of the optimizer object \<^verbatim>\<open>opt\<close>. No statement
  of the notebook opens a file, so no definition below writes \<open>files\<close>.

  PennyLane is not part of the repository. Every call into it is a field of the record
  below, a parameter of the model: a call takes the device's state vector and returns
  either the exception it raises or the new state vector and its result.
  \<^item> \<open>angle_embedding\<close>, \<open>basic_entangler_layers\<close>: the templates
    \<^verbatim>\<open>qml.templates.AngleEmbedding(x, wires)\<close> and \<^verbatim>\<open>qml.templates.BasicEntanglerLayers(w, wires)\<close>;
  \<^item> \<open>expval_pauliz\<close>: \<^verbatim>\<open>qml.expval(qml.PauliZ(wires=i))\<close>;
  \<^item> \<open>gate\<close>: the gates \<^verbatim>\<open>qml.Hadamard\<close>, \<^verbatim>\<open>qml.PauliX\<close>, \<^verbatim>\<open>qml.PauliZ\<close>, \<^verbatim>\<open>qml.CNOT\<close>,
    \<^verbatim>\<open>qml.RX\<close> and \<^verbatim>\<open>qml.RY\<close>;
  \<^item> \<open>sample_pauliz\<close>: \<^verbatim>\<open>qml.sample(qml.PauliZ(wires=i))\<close>, whose outcomes are random: the
    draw is its first argument;
  \<^item> \<open>grad_argnum0\<close>, \<open>grad_argnum1\<close>: \<^verbatim>\<open>qml.grad(f, argnum=0)\<close> and \<^verbatim>\<open>qml.grad(f, argnum=1)\<close>;
  \<^item> \<open>step_and_cost\<close>: \<^verbatim>\<open>qml.GradientDescentOptimizer(stepsize).step_and_cost(f, w, b)\<close>.
\<close>

datatype gate = Hadamard nat | PauliX nat | PauliZ nat | CNOT "nat list" | RX real nat | RY real nat

record ('x, 'w) library =
  angle_embedding :: "'x \<Rightarrow> nat list \<Rightarrow> statevector \<Rightarrow> error + statevector"
  basic_entangler_layers :: "'w \<Rightarrow> nat list \<Rightarrow> statevector \<Rightarrow> error + statevector"
  expval_pauliz :: "nat \<Rightarrow> statevector \<Rightarrow> error + real"
  grad_argnum0 ::
    "('w \<Rightarrow> real \<Rightarrow> 'x dataset \<Rightarrow> statevector \<Rightarrow> error + statevector \<times> real) \<Rightarrow>
      'w \<Rightarrow> real \<Rightarrow> 'x dataset \<Rightarrow> statevector \<Rightarrow> error + statevector \<times> 'w"
  grad_argnum1 ::
    "('w \<Rightarrow> real \<Rightarrow> 'x dataset \<Rightarrow> statevector \<Rightarrow> error + statevector \<times> real) \<Rightarrow>
      'w \<Rightarrow> real \<Rightarrow> 'x dataset \<Rightarrow> statevector \<Rightarrow> error + statevector \<times> real"
  step_and_cost ::
    "real \<Rightarrow> ('w \<Rightarrow> real \<Rightarrow> statevector \<Rightarrow> error + statevector \<times> real) \<Rightarrow>
      'w \<Rightarrow> real \<Rightarrow> statevector \<Rightarrow> error + statevector \<times> ('w \<times> real) \<times> real"
  gate :: "gate \<Rightarrow> statevector \<Rightarrow> error + statevector"
  sample_pauliz :: "nat \<Rightarrow> nat \<Rightarrow> statevector \<Rightarrow> error + int list"

text \<open>
  A library call made from the notebook runs on the device of the kernel
  (\<open>on_device\<close>); a notebook function handed to the library runs inside the library on
  the device state the library gives it (\<open>from_kernel\<close>).
\<close>

definition on_device ::
  "(statevector \<Rightarrow> error + statevector \<times> 'a) \<Rightarrow> ('x, 'w) kernel \<Rightarrow> error + ('x, 'w) kernel \<times> 'a" where
  "on_device f k =
     (case f (device k) of
        Inl e \<Rightarrow> Inl e
      | Inr (st, v) \<Rightarrow> Inr (k\<lparr>device := st\<rparr>, v))"

definition from_kernel ::
  "('x, 'w) kernel \<Rightarrow> (('x, 'w) kernel \<Rightarrow> error + ('x, 'w) kernel \<times> 'a) \<Rightarrow>
     statevector \<Rightarrow> error + statevector \<times> 'a" where
  "from_kernel k f st =
     (case f (k\<lparr>device := st\<rparr>) of
        Inl e \<Rightarrow> Inl e
      | Inr (k', v) \<Rightarrow> Inr (device k', v))"

definition lookup :: "string \<Rightarrow> 'a option \<Rightarrow> error + 'a" where
  "lookup name v = (case v of None \<Rightarrow> Inl (NameError name) | Some a \<Rightarrow> Inr a)"

text \<open>Statements in sequence: the second runs on what the first returns, unless it raised.\<close>

definition and_then :: "error + 'a \<Rightarrow> ('a \<Rightarrow> error + 'b) \<Rightarrow> error + 'b" where
  "and_then r f = (case r of Inl e \<Rightarrow> Inl e | Inr a \<Rightarrow> f a)"

section \<open>The device\<close>

text \<open>
  \<^verbatim>\<open>dev = qml.device('default.qubit', wires=2)\<close> holds four amplitudes. The notebook
  documents what the model needs of it: the initial state is "0..0" with probability one
  (\<^verbatim>\<open>dev.state\<close> prints \<^verbatim>\<open>[1, 0, 0, 0]\<close>), every evaluation of a quantum node starts from
  it (the circuit without gates returns \<^verbatim>\<open>[1, 0, 0, 0]\<close> right after the Hadamard circuit
  returned \<^verbatim>\<open>[0.5, 0, 0.5, 0]\<close>), \<^verbatim>\<open>QubitUnitary(U)\<close> evolves the state by the matrix
  \<^verbatim>\<open>U\<close>, and the state reached stays in the device ("The internal quantum state changed").
\<close>

definition initial_state :: statevector where
  "initial_state = [1, 0, 0, 0]"

definition mat_vec :: "complex list list \<Rightarrow> statevector \<Rightarrow> statevector" where
  "mat_vec U st = map (\<lambda>row. sum_list (map2 (*) row st)) U"

definition probs :: "statevector \<Rightarrow> real list" where
  "probs st = map (\<lambda>a. (cmod a)\<^sup>2) st"

section \<open>The model and its loss\<close>

text \<open>
  \<^verbatim>\<open>
  @qml.qnode(dev)
  def quantum_model(x, w):
      qml.templates.AngleEmbedding(x, wires=[0, 1])
      qml.templates.BasicEntanglerLayers(w, wires=[0, 1])
      return qml.expval(qml.PauliZ(wires=0))
  \<close>
\<close>

definition quantum_model ::
  "('x, 'w) library \<Rightarrow> ('x, 'w) kernel \<Rightarrow> 'x \<Rightarrow> 'w \<Rightarrow> error + ('x, 'w) kernel \<times> real" where
  "quantum_model L k x w =
     (case angle_embedding L x [0, 1] initial_state of
        Inl e \<Rightarrow> Inl e
      | Inr s1 \<Rightarrow>
          (case basic_entangler_layers L w [0, 1] s1 of
             Inl e \<Rightarrow> Inl e
           | Inr s2 \<Rightarrow>
               (case expval_pauliz L 0 s2 of
                  Inl e \<Rightarrow> Inl e
                | Inr v \<Rightarrow> Inr (k\<lparr>device := s2\<rparr>, v))))"

text \<open>
  \<^verbatim>\<open>
  def model_with_bias(x, w, b):
      return quantum_model(x, w) + b
  \<close>
\<close>

definition model_with_bias ::
  "('x, 'w) library \<Rightarrow> ('x, 'w) kernel \<Rightarrow> 'x \<Rightarrow> 'w \<Rightarrow> real \<Rightarrow> error + ('x, 'w) kernel \<times> real" where
  "model_with_bias L k x w b =
     (case quantum_model L k x w of
        Inl e \<Rightarrow> Inl e
      | Inr (k', v) \<Rightarrow> Inr (k', v + b))"

text \<open>
  \<^verbatim>\<open>
  def loss(a, b):
      return (a - b)**2
  \<close>
\<close>

definition loss :: "real \<Rightarrow> real \<Rightarrow> real" where
  "loss a b = (a - b)\<^sup>2"

text \<open>
  \<^verbatim>\<open>
  def average_loss(w, b, data):
      c = 0
      for x, y in data:
          prediction = model_with_bias(x, w, b)
          c += loss(prediction, y)
      return c/len(data)
  \<close>
  The loop is \<open>sum_losses\<close>, with the accumulator \<open>c\<close>. With no sample the accumulator
  is still the Python integer \<open>0\<close> and \<open>len(data)\<close> is \<open>0\<close>: the division raises.
\<close>

fun sum_losses ::
  "('x, 'w) library \<Rightarrow> 'w \<Rightarrow> real \<Rightarrow> 'x dataset \<Rightarrow> ('x, 'w) kernel \<Rightarrow> real \<Rightarrow>
     error + ('x, 'w) kernel \<times> real" where
  "sum_losses L w b [] k c = Inr (k, c)"
| "sum_losses L w b ((x, y) # rest) k c =
     (case model_with_bias L k x w b of
        Inl e \<Rightarrow> Inl e
      | Inr (k', prediction) \<Rightarrow> sum_losses L w b rest k' (c + loss prediction y))"

definition average_loss ::
  "('x, 'w) library \<Rightarrow> ('x, 'w) kernel \<Rightarrow> 'w \<Rightarrow> real \<Rightarrow> 'x dataset \<Rightarrow> error + ('x, 'w) kernel \<times> real" where
  "average_loss L k w b data =
     (case sum_losses L w b data k 0 of
        Inl e \<Rightarrow> Inl e
      | Inr (k', c) \<Rightarrow>
          if length data = 0 then Inl ZeroDivisionError
          else Inr (k', c / real (length data)))"

section \<open>The hand-coded training loop\<close>

text \<open>
  \<^verbatim>\<open>
  gradient_fn_w = qml.grad(average_loss, argnum=0)
  gradient_fn_b = qml.grad(average_loss, argnum=1)
  \<close>
\<close>

definition gradient_fn_w ::
  "('x, 'w) library \<Rightarrow> ('x, 'w) kernel \<Rightarrow> 'w \<Rightarrow> real \<Rightarrow> 'x dataset \<Rightarrow> error + ('x, 'w) kernel \<times> 'w" where
  "gradient_fn_w L k w b data =
     on_device
       (grad_argnum0 L (\<lambda>w' b' data'. from_kernel k (\<lambda>k'. average_loss L k' w' b' data')) w b data) k"

definition gradient_fn_b ::
  "('x, 'w) library \<Rightarrow> ('x, 'w) kernel \<Rightarrow> 'w \<Rightarrow> real \<Rightarrow> 'x dataset \<Rightarrow> error + ('x, 'w) kernel \<times> real" where
  "gradient_fn_b L k w b data =
     on_device
       (grad_argnum1 L (\<lambda>w' b' data'. from_kernel k (\<lambda>k'. average_loss L k' w' b' data')) w b data) k"

text \<open>
  The body of the loop, one definition for each statement; every variable is read from
  the kernel at the moment its statement runs. The functions the body calls are defined
  in the same cell, just above the loop, so their names are bound whenever it runs.
  \<^verbatim>\<open>
  for i in range(15):
      w_new = w - 0.05*gradient_fn_w(w, b, data)
      b_new = b - 0.05*gradient_fn_b(w, b, data)
      print(average_loss(w_new, b_new, data))
      w = w_new
      b = b_new
  \<close>
\<close>

definition assign_w_new ::
  "('x, 'w::real_vector) library \<Rightarrow> ('x, 'w) kernel \<Rightarrow> error + ('x, 'w) kernel" where
  "assign_w_new L k =
     and_then (lookup ''w'' (var_w k)) (\<lambda>w.
     and_then (lookup ''b'' (var_b k)) (\<lambda>b.
     and_then (lookup ''data'' (var_data k)) (\<lambda>data.
     and_then (gradient_fn_w L k w b data) (\<lambda>(k', g).
       Inr (k'\<lparr>var_w_new := Some (w - 0.05 *\<^sub>R g)\<rparr>)))))"

definition assign_b_new ::
  "('x, 'w::real_vector) library \<Rightarrow> ('x, 'w) kernel \<Rightarrow> error + ('x, 'w) kernel" where
  "assign_b_new L k =
     and_then (lookup ''b'' (var_b k)) (\<lambda>b.
     and_then (lookup ''w'' (var_w k)) (\<lambda>w.
     and_then (lookup ''data'' (var_data k)) (\<lambda>data.
     and_then (gradient_fn_b L k w b data) (\<lambda>(k', g).
       Inr (k'\<lparr>var_b_new := Some (b - 0.05 * g)\<rparr>)))))"

definition print_loss ::
  "('x, 'w) library \<Rightarrow> ('x, 'w) kernel \<Rightarrow> error + ('x, 'w) kernel" where
  "print_loss L k =
     and_then (lookup ''w_new'' (var_w_new k)) (\<lambda>w_new.
     and_then (lookup ''b_new'' (var_b_new k)) (\<lambda>b_new.
     and_then (lookup ''data'' (var_data k)) (\<lambda>data.
     and_then (average_loss L k w_new b_new data) (\<lambda>(k', c).
       Inr (k'\<lparr>stdout := stdout k' @ [c]\<rparr>)))))"

definition assign_w :: "('x, 'w) kernel \<Rightarrow> error + ('x, 'w) kernel" where
  "assign_w k = and_then (lookup ''w_new'' (var_w_new k)) (\<lambda>w_new. Inr (k\<lparr>var_w := Some w_new\<rparr>))"

definition assign_b :: "('x, 'w) kernel \<Rightarrow> error + ('x, 'w) kernel" where
  "assign_b k = and_then (lookup ''b_new'' (var_b_new k)) (\<lambda>b_new. Inr (k\<lparr>var_b := Some b_new\<rparr>))"

definition training_iteration ::
  "('x, 'w::real_vector) library \<Rightarrow> ('x, 'w) kernel \<Rightarrow> error + ('x, 'w) kernel" where
  "training_iteration L k =
     and_then (assign_w_new L k) (\<lambda>k1.
     and_then (assign_b_new L k1) (\<lambda>k2.
     and_then (print_loss L k2) (\<lambda>k3.
     and_then (assign_w k3) assign_b)))"

text \<open>
  \<^verbatim>\<open>for i in range(n)\<close>: the body runs \<open>n\<close> times and stops at the first exception. No
  body in the notebook reads \<^verbatim>\<open>i\<close>.
\<close>

fun for_range :: "nat \<Rightarrow> ('s \<Rightarrow> error + 's) \<Rightarrow> 's \<Rightarrow> error + 's" where
  "for_range 0 body k = Inr k"
| "for_range (Suc n) body k =
     (case body k of
        Inl e \<Rightarrow> Inl e
      | Inr k' \<Rightarrow> for_range n body k')"

definition training_loop ::
  "('x, 'w::real_vector) library \<Rightarrow> ('x, 'w) kernel \<Rightarrow> error + ('x, 'w) kernel" where
  "training_loop L k = for_range 15 (training_iteration L) k"

section \<open>The cells\<close>

text \<open>
  A cell takes the kernel as the cells run before it left it, and returns the kernel and
  the value the notebook displays, or the exception that ends it (what the cell had bound
  before it raised is then not kept). \<open>run_cells\<close> runs cells in order from a kernel and
  stops at the first exception. Cells are modelled up to the optimizer cell; of the
  PyTorch exercise after it, which binds \<^verbatim>\<open>quantum_model\<close> and \<^verbatim>\<open>average_loss\<close> anew, the
  functions and the loop are modelled further down, under names of their own.
\<close>

datatype display = Nothing | Probabilities "real list" | Amplitudes statevector

type_synonym ('x, 'w) cell = "('x, 'w) kernel \<Rightarrow> error + ('x, 'w) kernel \<times> display"

definition fresh_kernel :: "('x, 'w) kernel" where
  "fresh_kernel =
     \<lparr>bound = {}, var_w = None, var_b = None, var_data = None, var_w_new = None,
      var_b_new = None, var_opt = None, device = [], stdout = [], files = Map.empty\<rparr>"

fun run_cells :: "('x, 'w) cell list \<Rightarrow> ('x, 'w) kernel \<Rightarrow> error + ('x, 'w) kernel \<times> display" where
  "run_cells [] k = Inr (k, Nothing)"
| "run_cells [c] k = c k"
| "run_cells (c # cs) k =
     (case c k of
        Inl e \<Rightarrow> Inl e
      | Inr (k', out) \<Rightarrow> run_cells cs k')"

text \<open>
  \<^verbatim>\<open>
  import pennylane as qml
  from pennylane import numpy as np
  \<close>
\<close>

definition cell_import :: "('x, 'w) cell" where
  "cell_import k = Inr (k\<lparr>bound := bound k \<union> {''qml'', ''np''}\<rparr>, Nothing)"

text \<open>\<^verbatim>\<open>dev = qml.device('default.qubit', wires=2)\<close>\<close>

definition cell_device :: "('x, 'w) cell" where
  "cell_device k =
     (if ''qml'' \<notin> bound k then Inl (NameError ''qml'')
      else Inr (k\<lparr>bound := insert ''dev'' (bound k), device := initial_state\<rparr>, Nothing))"

text \<open>
  \<^verbatim>\<open>
  @qml.qnode(dev)
  def circuit():
      return qml.probs(wires=[0, 1])

  circuit()
  \<close>
\<close>

definition circuit_initial :: "('x, 'w) kernel \<Rightarrow> ('x, 'w) kernel \<times> real list" where
  "circuit_initial k = (k\<lparr>device := initial_state\<rparr>, probs initial_state)"

definition cell_initial :: "('x, 'w) cell" where
  "cell_initial k =
     (if ''qml'' \<notin> bound k then Inl (NameError ''qml'')
      else if ''dev'' \<notin> bound k then Inl (NameError ''dev'')
      else (case circuit_initial (k\<lparr>bound := insert ''circuit'' (bound k)\<rparr>) of
              (k', p) \<Rightarrow> Inr (k', Probabilities p)))"

text \<open>
  \<^verbatim>\<open>
  s = 1/np.sqrt(2)
  U = np.array([[0., -s, 0.,  s],
                [ s, 0., -s, 0.],
                [ s, 0.,  s, 0.],
                [0., -s, 0., -s]])

  @qml.qnode(dev)
  def circuit():
      qml.QubitUnitary(U, wires=[0, 1])
      return qml.probs(wires=[0, 1])

  circuit()
  \<close>
\<close>

definition s :: real where
  "s = 1 / sqrt 2"

definition U :: "complex list list" where
  "U = [[0, - complex_of_real s, 0, complex_of_real s],
        [complex_of_real s, 0, - complex_of_real s, 0],
        [complex_of_real s, 0, complex_of_real s, 0],
        [0, - complex_of_real s, 0, - complex_of_real s]]"

definition circuit_unitary :: "('x, 'w) kernel \<Rightarrow> ('x, 'w) kernel \<times> real list" where
  "circuit_unitary k =
     (k\<lparr>device := mat_vec U initial_state\<rparr>, probs (mat_vec U initial_state))"

definition cell_unitary :: "('x, 'w) cell" where
  "cell_unitary k =
     (if ''np'' \<notin> bound k then Inl (NameError ''np'')
      else if ''qml'' \<notin> bound k then Inl (NameError ''qml'')
      else if ''dev'' \<notin> bound k then Inl (NameError ''dev'')
      else (case circuit_unitary (k\<lparr>bound := bound k \<union> {''s'', ''U'', ''circuit''}\<rparr>) of
              (k', p) \<Rightarrow> Inr (k', Probabilities p)))"

text \<open>\<^verbatim>\<open>dev.state\<close>\<close>

definition cell_dev_state :: "('x, 'w) cell" where
  "cell_dev_state k =
     (if ''dev'' \<notin> bound k then Inl (NameError ''dev'')
      else Inr (k, Amplitudes (device k)))"

text \<open>
  \<^verbatim>\<open>
  opt = qml.GradientDescentOptimizer(0.05)
  for i in range(15):
      ([w, b], cst) = opt.step_and_cost(lambda w_, b_: average_loss(w_, b_, data), w, b)
      print(cst)
  \<close>
  The lambda reads \<^verbatim>\<open>average_loss\<close> and \<^verbatim>\<open>data\<close> when the optimizer calls it.
\<close>

definition objective ::
  "('x, 'w) library \<Rightarrow> ('x, 'w) kernel \<Rightarrow> 'w \<Rightarrow> real \<Rightarrow> statevector \<Rightarrow> error + statevector \<times> real" where
  "objective L k w1 b1 =
     from_kernel k (\<lambda>k'.
       if ''average_loss'' \<notin> bound k' then Inl (NameError ''average_loss'')
       else and_then (lookup ''data'' (var_data k')) (\<lambda>data. average_loss L k' w1 b1 data))"

definition optimizer_iteration ::
  "('x, 'w) library \<Rightarrow> ('x, 'w) kernel \<Rightarrow> error + ('x, 'w) kernel" where
  "optimizer_iteration L k =
     and_then (lookup ''opt'' (var_opt k)) (\<lambda>stepsize.
     and_then (lookup ''w'' (var_w k)) (\<lambda>w.
     and_then (lookup ''b'' (var_b k)) (\<lambda>b.
     and_then (on_device (step_and_cost L stepsize (objective L k) w b) k) (\<lambda>(k', (w', b'), cst).
       Inr (k'\<lparr>var_w := Some w', var_b := Some b', stdout := stdout k' @ [cst]\<rparr>)))))"

definition cell_optimizer :: "('x, 'w) library \<Rightarrow> ('x, 'w) cell" where
  "cell_optimizer L k =
     (if ''qml'' \<notin> bound k then Inl (NameError ''qml'')
      else and_then (for_range 15 (optimizer_iteration L) (k\<lparr>var_opt := Some 0.05\<rparr>))
             (\<lambda>k'. Inr (k', Nothing)))"

section \<open>Quantum nodes\<close>

text \<open>
  \<^verbatim>\<open>@qml.qnode(dev)\<close> turns a quantum function into a quantum node: a call runs the
  operations of the function from the initial state, measures, and leaves the state
  reached in the device. \<open>quantum_model\<close>, \<open>circuit_initial\<close> and \<open>circuit_unitary\<close>
  above are written out this way; the other functions \<^verbatim>\<open>circuit\<close> of the notebook follow,
  one name for each cell.
\<close>

definition qnode ::
  "(statevector \<Rightarrow> error + statevector) \<Rightarrow> (statevector \<Rightarrow> error + 'a) \<Rightarrow>
     ('x, 'w) kernel \<Rightarrow> error + ('x, 'w) kernel \<times> 'a" where
  "qnode operations measurement k =
     (case operations initial_state of
        Inl e \<Rightarrow> Inl e
      | Inr st \<Rightarrow>
          (case measurement st of
             Inl e \<Rightarrow> Inl e
           | Inr v \<Rightarrow> Inr (k\<lparr>device := st\<rparr>, v)))"

text \<open>
  \<^verbatim>\<open>return qml.expval(qml.PauliZ(wires=0)), qml.expval(qml.PauliZ(wires=1))\<close> and
  \<^verbatim>\<open>return qml.sample(qml.PauliZ(wires=0)), qml.sample(qml.PauliZ(wires=1))\<close>
\<close>

definition expval_both :: "('x, 'w) library \<Rightarrow> statevector \<Rightarrow> error + real \<times> real" where
  "expval_both L st =
     and_then (expval_pauliz L 0 st) (\<lambda>z0.
     and_then (expval_pauliz L 1 st) (\<lambda>z1. Inr (z0, z1)))"

definition sample_both :: "('x, 'w) library \<Rightarrow> nat \<Rightarrow> statevector \<Rightarrow> error + int list \<times> int list" where
  "sample_both L draw st =
     and_then (sample_pauliz L draw 0 st) (\<lambda>z0.
     and_then (sample_pauliz L draw 1 st) (\<lambda>z1. Inr (z0, z1)))"

text \<open>
  \<^verbatim>\<open>
  @qml.qnode(dev)
  def circuit():
      qml.Hadamard(wires=0)
      return qml.probs(wires=[0, 1])
  \<close>
\<close>

definition circuit_hadamard ::
  "('x, 'w) library \<Rightarrow> ('x, 'w) kernel \<Rightarrow> error + ('x, 'w) kernel \<times> real list" where
  "circuit_hadamard L k = qnode (gate L (Hadamard 0)) (\<lambda>st. Inr (probs st)) k"

text \<open>
  \<^verbatim>\<open>
  @qml.qnode(dev)
  def circuit():
      qml.QubitUnitary(U, wires=[0, 1])
      return qml.sample(qml.PauliZ(wires=0)), qml.sample(qml.PauliZ(wires=1))
  \<close>
\<close>

definition circuit_sample ::
  "('x, 'w) library \<Rightarrow> nat \<Rightarrow> ('x, 'w) kernel \<Rightarrow> error + ('x, 'w) kernel \<times> int list \<times> int list" where
  "circuit_sample L draw k = qnode (\<lambda>st. Inr (mat_vec U st)) (sample_both L draw) k"

text \<open>
  \<^verbatim>\<open>
  @qml.qnode(dev)
  def circuit():
      qml.QubitUnitary(U, wires=[0, 1])
      return qml.expval(qml.PauliZ(wires=0)), qml.expval(qml.PauliZ(wires=1))
  \<close>
\<close>

definition circuit_expval ::
  "('x, 'w) library \<Rightarrow> ('x, 'w) kernel \<Rightarrow> error + ('x, 'w) kernel \<times> real \<times> real" where
  "circuit_expval L k = qnode (\<lambda>st. Inr (mat_vec U st)) (expval_both L) k"

text \<open>
  \<^verbatim>\<open>
  @qml.qnode(dev)
  def circuit():
      qml.PauliX(wires=0)
      qml.CNOT(wires=[0,1])
      qml.Hadamard(wires=0)
      qml.PauliZ(wires=1)
      return qml.expval(qml.PauliZ(wires=0)), qml.expval(qml.PauliZ(wires=1))
  \<close>
\<close>

definition circuit_gates ::
  "('x, 'w) library \<Rightarrow> ('x, 'w) kernel \<Rightarrow> error + ('x, 'w) kernel \<times> real \<times> real" where
  "circuit_gates L k =
     qnode (\<lambda>st.
         and_then (gate L (PauliX 0) st) (\<lambda>s1.
         and_then (gate L (CNOT [0, 1]) s1) (\<lambda>s2.
         and_then (gate L (Hadamard 0) s2) (gate L (PauliZ 1)))))
       (expval_both L) k"

text \<open>
  \<^verbatim>\<open>
  @qml.qnode(dev)
  def circuit(w1, w2):
      qml.RX(w1, wires=0)
      qml.CNOT(wires=[0,1])
      qml.RY(w2, wires=1)
      return qml.expval(qml.PauliZ(wires=0)), qml.expval(qml.PauliZ(wires=1))
  \<close>
\<close>

definition circuit_rotations ::
  "('x, 'w) library \<Rightarrow> ('x, 'w) kernel \<Rightarrow> real \<Rightarrow> real \<Rightarrow> error + ('x, 'w) kernel \<times> real \<times> real" where
  "circuit_rotations L k w1 w2 =
     qnode (\<lambda>st.
         and_then (gate L (RX w1 0) st) (\<lambda>s1.
         and_then (gate L (CNOT [0, 1]) s1) (gate L (RY w2 1))))
       (expval_both L) k"

section \<open>The PyTorch exercise\<close>

text \<open>
  The last cell states the example again with PyTorch. What it calls of PyTorch is a
  second record of parameters; \<open>'t\<close> is what PyTorch keeps between calls (the
  gradients stored in the tensors, the moments of Adam):
  \<^item> \<open>zero_grad\<close>: \<^verbatim>\<open>opt.zero_grad()\<close>;
  \<^item> \<open>backward\<close>: \<^verbatim>\<open>loss.backward()\<close>, given the computation that produced the loss and
    the weights it was produced from;
  \<^item> \<open>adam_step\<close>: \<^verbatim>\<open>opt.step(closure)\<close> of \<^verbatim>\<open>torch.optim.Adam([w], lr = 0.1)\<close>, given the
    closure and the weights; it returns the weights it has updated.
  The quantum node of the cell has the body of \<open>quantum_model\<close> (its interface is
  \<^verbatim>\<open>'torch'\<close>), so \<open>quantum_model\<close> stands for it.
\<close>

record ('w, 't) torch =
  zero_grad :: "'t \<Rightarrow> error + 't"
  backward ::
    "('w \<Rightarrow> statevector \<Rightarrow> error + statevector \<times> real) \<Rightarrow> 'w \<Rightarrow> 't \<Rightarrow> statevector \<Rightarrow>
       error + statevector \<times> 't"
  adam_step ::
    "('t \<Rightarrow> statevector \<Rightarrow> error + (statevector \<times> 't) \<times> real) \<Rightarrow> 'w \<Rightarrow> 't \<Rightarrow> statevector \<Rightarrow>
       error + (statevector \<times> 't) \<times> 'w"

text \<open>
  \<^verbatim>\<open>
  def average_loss(w, data):
      c = 0
      for x, y in data:
          prediction = quantum_model(x, w)
          c += loss(prediction, y)
      return c/len(data)
  \<close>
\<close>

fun sum_losses_torch ::
  "('x, 'w) library \<Rightarrow> 'w \<Rightarrow> 'x dataset \<Rightarrow> ('x, 'w) kernel \<Rightarrow> real \<Rightarrow>
     error + ('x, 'w) kernel \<times> real" where
  "sum_losses_torch L w [] k c = Inr (k, c)"
| "sum_losses_torch L w ((x, y) # rest) k c =
     (case quantum_model L k x w of
        Inl e \<Rightarrow> Inl e
      | Inr (k', prediction) \<Rightarrow> sum_losses_torch L w rest k' (c + loss prediction y))"

definition average_loss_torch ::
  "('x, 'w) library \<Rightarrow> ('x, 'w) kernel \<Rightarrow> 'w \<Rightarrow> 'x dataset \<Rightarrow> error + ('x, 'w) kernel \<times> real" where
  "average_loss_torch L k w data =
     (case sum_losses_torch L w data k 0 of
        Inl e \<Rightarrow> Inl e
      | Inr (k', c) \<Rightarrow>
          if length data = 0 then Inl ZeroDivisionError
          else Inr (k', c / real (length data)))"

text \<open>
  \<^verbatim>\<open>
  def closure():
      opt.zero_grad()
      loss = average_loss(w, data)
      loss.backward()
      return loss
  \<close>
  The state of a call is the kernel together with what PyTorch keeps.
\<close>

definition closure ::
  "('x, 'w) library \<Rightarrow> ('w, 't) torch \<Rightarrow> ('x, 'w) kernel \<times> 't \<Rightarrow>
     error + (('x, 'w) kernel \<times> 't) \<times> real" where
  "closure L T kt =
     (case kt of (k, ts) \<Rightarrow>
        and_then (zero_grad T ts) (\<lambda>ts1.
        and_then (lookup ''w'' (var_w k)) (\<lambda>w.
        and_then (lookup ''data'' (var_data k)) (\<lambda>data.
        and_then (average_loss_torch L k w data) (\<lambda>(k1, l).
        and_then (backward T (\<lambda>w'. from_kernel k (\<lambda>k'. average_loss_torch L k' w' data))
                    w ts1 (device k1)) (\<lambda>(st, ts2).
          Inr ((k1\<lparr>device := st\<rparr>, ts2), l)))))))"

text \<open>
  \<^verbatim>\<open>
  for i in range(15):
      opt.step(closure)
      print(average_loss(w, data))
  \<close>
  \<^verbatim>\<open>opt.step\<close> calls the closure inside PyTorch, on the device state and the PyTorch state
  it is given, and updates the tensor \<^verbatim>\<open>w\<close> in place: the optimizer was made from the
  tensor that \<^verbatim>\<open>w\<close> names, a few lines above the loop.
\<close>

definition closure_in_torch ::
  "('x, 'w) library \<Rightarrow> ('w, 't) torch \<Rightarrow> ('x, 'w) kernel \<Rightarrow> 't \<Rightarrow> statevector \<Rightarrow>
     error + (statevector \<times> 't) \<times> real" where
  "closure_in_torch L T k ts st =
     (case closure L T (k\<lparr>device := st\<rparr>, ts) of
        Inl e \<Rightarrow> Inl e
      | Inr ((k', ts'), l) \<Rightarrow> Inr ((device k', ts'), l))"

definition print_loss_torch ::
  "('x, 'w) library \<Rightarrow> ('x, 'w) kernel \<times> 't \<Rightarrow> error + ('x, 'w) kernel \<times> 't" where
  "print_loss_torch L kt =
     (case kt of (k, ts) \<Rightarrow>
        and_then (lookup ''w'' (var_w k)) (\<lambda>w.
        and_then (lookup ''data'' (var_data k)) (\<lambda>data.
        and_then (average_loss_torch L k w data) (\<lambda>(k', c).
          Inr (k'\<lparr>stdout := stdout k' @ [c]\<rparr>, ts)))))"

definition torch_iteration ::
  "('x, 'w) library \<Rightarrow> ('w, 't) torch \<Rightarrow> ('x, 'w) kernel \<times> 't \<Rightarrow> error + ('x, 'w) kernel \<times> 't" where
  "torch_iteration L T kt =
     (case kt of (k, ts) \<Rightarrow>
        and_then (lookup ''w'' (var_w k)) (\<lambda>w.
        and_then (adam_step T (closure_in_torch L T k) w ts (device k)) (\<lambda>((st, ts'), w').
          print_loss_torch L (k\<lparr>device := st, var_w := Some w'\<rparr>, ts'))))"

definition torch_loop ::
  "('x, 'w) library \<Rightarrow> ('w, 't) torch \<Rightarrow> ('x, 'w) kernel \<times> 't \<Rightarrow> error + ('x, 'w) kernel \<times> 't" where
  "torch_loop L T kt = for_range 15 (torch_iteration L T) kt"

section \<open>A library to run the model on\<close>

text \<open>
  The theorems below hold for every library. To evaluate them on concrete inputs, this
  stand-in takes one real weight and a list of features: its templates and gates leave
  the state alone, its expectation value is computed from the amplitudes (\<open>+1\<close> for a wire in
  state 0, \<open>-1\<close> for a wire in state 1), its gradients are central differences of the
  function they are given, and it has no optimizer.
\<close>

definition pauliz_expectation :: "nat \<Rightarrow> statevector \<Rightarrow> error + real" where
  "pauliz_expectation i st =
     (case probs st of
        [p00, p01, p10, p11] \<Rightarrow>
          if i = 0 then Inr (p00 + p01 - p10 - p11)
          else if i = 1 then Inr (p00 - p01 + p10 - p11)
          else Inl (External ''WireError'')
      | _ \<Rightarrow> Inl (External ''ValueError''))"

definition difference_w ::
  "(real \<Rightarrow> real \<Rightarrow> 'x dataset \<Rightarrow> statevector \<Rightarrow> error + statevector \<times> real) \<Rightarrow>
     real \<Rightarrow> real \<Rightarrow> 'x dataset \<Rightarrow> statevector \<Rightarrow> error + statevector \<times> real" where
  "difference_w f w b data st =
     and_then (f (w + 1) b data st) (\<lambda>(s1, u).
     and_then (f (w - 1) b data s1) (\<lambda>(s2, v). Inr (s2, (u - v) / 2)))"

definition difference_b ::
  "('w \<Rightarrow> real \<Rightarrow> 'x dataset \<Rightarrow> statevector \<Rightarrow> error + statevector \<times> real) \<Rightarrow>
     'w \<Rightarrow> real \<Rightarrow> 'x dataset \<Rightarrow> statevector \<Rightarrow> error + statevector \<times> real" where
  "difference_b f w b data st =
     and_then (f w (b + 1) data st) (\<lambda>(s1, u).
     and_then (f w (b - 1) data s1) (\<lambda>(s2, v). Inr (s2, (u - v) / 2)))"

definition plain_library :: "(real list, real) library" where
  "plain_library =
     \<lparr>angle_embedding = (\<lambda>x wires st. Inr st),
      basic_entangler_layers = (\<lambda>w wires st. Inr st),
      expval_pauliz = pauliz_expectation,
      grad_argnum0 = difference_w,
      grad_argnum1 = difference_b,
      step_and_cost = (\<lambda>stepsize f w b st. Inl (External ''NotImplementedError'')),
      gate = (\<lambda>g st. Inr st),
      sample_pauliz = (\<lambda>draw i st. Inr [1, - 1])\<rparr>"

definition failing_library :: "(real list, real) library" where
  "failing_library =
     plain_library\<lparr>angle_embedding := (\<lambda>x wires st. Inl (External ''ValueError''))\<rparr>"

text \<open>\<open>broken_library\<close> is \<open>plain_library\<close> on a device that fails: its gates and its
  measurements raise.\<close>

definition broken_library :: "(real list, real) library" where
  "broken_library =
     plain_library\<lparr>expval_pauliz := (\<lambda>i st. Inl (External ''DeviceError'')),
       gate := (\<lambda>g st. Inl (External ''DeviceError'')),
       sample_pauliz := (\<lambda>draw i st. Inl (External ''DeviceError''))\<rparr>"

text \<open>
  \<open>scaling_library\<close> is \<open>plain_library\<close> with a model that depends on the weight: the
  layer multiplies the amplitudes by \<open>w\<close>, so that the quantum node returns \<open>w\<^sup>2\<close>.
  \<open>plain_torch\<close> counts the backward passes and moves the weight against the loss.
\<close>

definition scaling_library :: "(real list, real) library" where
  "scaling_library =
     plain_library\<lparr>basic_entangler_layers :=
       (\<lambda>w wires st. Inr (map (\<lambda>a. complex_of_real w * a) st))\<rparr>"

definition plain_torch :: "(real, nat) torch" where
  "plain_torch =
     \<lparr>zero_grad = (\<lambda>ts. Inr ts),
      backward = (\<lambda>f w ts st. Inr (st, Suc ts)),
      adam_step = (\<lambda>cl w ts st. and_then (cl ts st) (\<lambda>(r, l). Inr (r, w - l)))\<rparr>"

text \<open>
  Two kernels to evaluate on: \<open>session\<close> is the kernel after the import cell, the device
  cell and the cell of the circuit without gates; \<open>sample_kernel\<close> also holds the functions
  of the model, one weight, a zero bias and one training sample.
\<close>

definition session :: "(real list, real) kernel" where
  "session =
     fresh_kernel\<lparr>bound := {''qml'', ''np'', ''dev'', ''circuit''}, device := initial_state\<rparr>"

definition sample_kernel :: "(real list, real) kernel" where
  "sample_kernel =
     session\<lparr>bound := bound session \<union>
         {''quantum_model'', ''model_with_bias'', ''loss'', ''average_loss'',
          ''gradient_fn_w'', ''gradient_fn_b''},
       var_w := Some 0, var_b := Some 0, var_data := Some [([1, 2], - 1)]\<rparr>"


text \<open>\<open>unit_kernel\<close> is \<open>sample_kernel\<close> with the weight 1.\<close>

definition unit_kernel :: "(real list, real) kernel" where
  "unit_kernel = sample_kernel\<lparr>var_w := Some 1\<rparr>"

section \<open>Sequencing, lookups and the frame of a call\<close>

lemma and_then_simps:
  "and_then (Inl e) f = Inl e"
  "and_then (Inr a) f = f a"
  by (simp_all add: and_then_def)

lemma lookup_simps:
  "lookup name None = Inl (NameError name)"
  "lookup name (Some a) = Inr a"
  by (simp_all add: lookup_def)

text \<open>A call changes at most the device: every other field of the kernel is as before.\<close>

lemma on_device_frame:
  "on_device f k = Inr (k', v) \<Longrightarrow> k' = k\<lparr>device := device k'\<rparr>"
  by (auto simp: on_device_def split: sum.splits)

lemma quantum_model_frame:
  "quantum_model L k x w = Inr (k', v) \<Longrightarrow> k' = k\<lparr>device := device k'\<rparr>"
  by (auto simp: quantum_model_def split: sum.splits)

lemma model_with_bias_frame:
  "model_with_bias L k x w b = Inr (k', v) \<Longrightarrow> k' = k\<lparr>device := device k'\<rparr>"
  by (auto simp: model_with_bias_def split: sum.splits dest: quantum_model_frame)

lemma frame_trans:
  "k1 = k\<lparr>device := device k1\<rparr> \<Longrightarrow> k2 = k1\<lparr>device := device k2\<rparr> \<Longrightarrow> k2 = k\<lparr>device := device k2\<rparr>"
  by (metis kernel.surjective kernel.update_convs(8))

lemma sum_losses_frame:
  "sum_losses L w b data k c = Inr (k', t) \<Longrightarrow> k' = k\<lparr>device := device k'\<rparr>"
proof (induction data arbitrary: k c)
  case Nil
  then show ?case by simp
next
  case (Cons p rest)
  obtain x y where p: "p = (x, y)" by (cases p)
  from Cons.prems p obtain k1 v where
    step: "model_with_bias L k x w b = Inr (k1, v)" and
    rest: "sum_losses L w b rest k1 (c + loss v y) = Inr (k', t)"
    by (auto split: sum.splits)
  from model_with_bias_frame [OF step] Cons.IH [OF rest] show ?case
    by (rule frame_trans)
qed

lemma average_loss_frame:
  "average_loss L k w b data = Inr (k', v) \<Longrightarrow> k' = k\<lparr>device := device k'\<rparr>"
  by (auto simp: average_loss_def split: sum.splits if_splits dest: sum_losses_frame)

lemma gradient_fn_w_frame:
  "gradient_fn_w L k w b data = Inr (k', g) \<Longrightarrow> k' = k\<lparr>device := device k'\<rparr>"
  unfolding gradient_fn_w_def by (rule on_device_frame)

lemma gradient_fn_b_frame:
  "gradient_fn_b L k w b data = Inr (k', g) \<Longrightarrow> k' = k\<lparr>device := device k'\<rparr>"
  unfolding gradient_fn_b_def by (rule on_device_frame)

lemma frame_fields:
  assumes "k' = k\<lparr>device := device k'\<rparr>"
  shows "bound k' = bound k" "var_w k' = var_w k" "var_b k' = var_b k" "var_data k' = var_data k"
    "var_w_new k' = var_w_new k" "var_b_new k' = var_b_new k" "var_opt k' = var_opt k"
    "stdout k' = stdout k"
  by (subst assms, simp)+

section \<open>The sum of the losses\<close>

lemma loss_nonneg: "0 \<le> loss a c"
  by (simp add: loss_def)

lemma sum_losses_lower:
  "sum_losses L w b data k c = Inr (k', t) \<Longrightarrow> c \<le> t"
proof (induction data arbitrary: k c)
  case Nil
  then show ?case by simp
next
  case (Cons p rest)
  obtain x y where p: "p = (x, y)" by (cases p)
  from Cons.prems p obtain k1 v where
    step: "model_with_bias L k x w b = Inr (k1, v)" and
    rest: "sum_losses L w b rest k1 (c + loss v y) = Inr (k', t)"
    by (auto split: sum.splits)
  from Cons.IH [OF rest] have "c + loss v y \<le> t" .
  with loss_nonneg [of v y] show ?case by linarith
qed

lemma quantum_model_returns_anywhere:
  assumes "quantum_model L k0 x w = Inr (k1, v)"
  shows "quantum_model L k x w = Inr (k\<lparr>device := device k1\<rparr>, v)"
  using assms by (auto simp: quantum_model_def split: sum.splits)

lemma sum_losses_returns:
  assumes "\<forall>x y. (x, y) \<in> set data \<longrightarrow> (\<exists>k1 v1. quantum_model L k0 x w = Inr (k1, v1))"
  shows "\<exists>k' t. sum_losses L w b data k c = Inr (k', t)"
  using assms
proof (induction data arbitrary: k c)
  case Nil
  show ?case by simp
next
  case (Cons p rest)
  obtain x y where p: "p = (x, y)" by (cases p)
  from Cons.prems [rule_format, of x y] p obtain k1 v1 where
    "quantum_model L k0 x w = Inr (k1, v1)"
    by auto
  from quantum_model_returns_anywhere [OF this, of k]
  have step: "model_with_bias L k x w b = Inr (k\<lparr>device := device k1\<rparr>, v1 + b)"
    by (simp add: model_with_bias_def)
  from Cons.prems have "\<forall>x y. (x, y) \<in> set rest \<longrightarrow> (\<exists>k1 v1. quantum_model L k0 x w = Inr (k1, v1))"
    by auto
  from Cons.IH [OF this, of "k\<lparr>device := device k1\<rparr>" "c + loss (v1 + b) y"] p step
  show ?case by simp
qed

lemma sum_losses_raises:
  assumes "sum_losses L w b pre k c = Inr (k1, c1)" and "model_with_bias L k1 x w b = Inl e"
  shows "sum_losses L w b (pre @ (x, y) # post) k c = Inl e"
  using assms
proof (induction pre arbitrary: k c)
  case Nil
  then show ?case by simp
next
  case (Cons p pre)
  obtain x' y' where p: "p = (x', y')" by (cases p)
  from Cons.prems(1) p obtain k2 v where
    step: "model_with_bias L k x' w b = Inr (k2, v)" and
    rest: "sum_losses L w b pre k2 (c + loss v y') = Inr (k1, c1)"
    by (auto split: sum.splits)
  from Cons.IH [OF rest Cons.prems(2)] p step show ?case by simp
qed

section \<open>One iteration of the training loop\<close>

lemma assign_w_new_eq:
  assumes "var_w k = Some w" "var_b k = Some b" "var_data k = Some data"
    and "wn = (\<lambda>gw. w - 0.05 *\<^sub>R gw)"
  shows "assign_w_new L k =
     and_then (gradient_fn_w L k w b data) (\<lambda>(k1, gw). Inr (k1\<lparr>var_w_new := Some (wn gw)\<rparr>))"
  unfolding assms(4) using assms(1-3) by (simp add: assign_w_new_def lookup_simps and_then_simps)

lemma assign_b_new_eq:
  assumes "var_w k = Some w" "var_b k = Some b" "var_data k = Some data"
    and "bn = (\<lambda>gb. b - 0.05 * gb)"
  shows "assign_b_new L k =
     and_then (gradient_fn_b L k w b data) (\<lambda>(k2, gb). Inr (k2\<lparr>var_b_new := Some (bn gb)\<rparr>))"
  unfolding assms(4) using assms(1-3) by (simp add: assign_b_new_def lookup_simps and_then_simps)

lemma print_loss_eq:
  assumes "var_w_new k = Some w'" "var_b_new k = Some b'" "var_data k = Some data"
  shows "print_loss L k =
     and_then (average_loss L k w' b' data) (\<lambda>(k3, c). Inr (k3\<lparr>stdout := stdout k3 @ [c]\<rparr>))"
  using assms by (simp add: print_loss_def lookup_simps and_then_simps)

lemma training_iteration_steps:
  fixes L :: "('x, 'w::real_vector) library"
  assumes w: "var_w k = Some w" and b: "var_b k = Some b" and d: "var_data k = Some data"
  shows "training_iteration L k =
     and_then (gradient_fn_w L k w b data) (\<lambda>(k1, gw).
     and_then (gradient_fn_b L (k1\<lparr>var_w_new := Some (w - 0.05 *\<^sub>R gw)\<rparr>) w b data) (\<lambda>(k2, gb).
     and_then (average_loss L (k2\<lparr>var_b_new := Some (b - 0.05 * gb)\<rparr>)
                 (w - 0.05 *\<^sub>R gw) (b - 0.05 * gb) data) (\<lambda>(k3, c).
       Inr (k3\<lparr>stdout := stdout k3 @ [c],
               var_w := Some (w - 0.05 *\<^sub>R gw),
               var_b := Some (b - 0.05 * gb)\<rparr>))))"
proof -
  define wn where "wn = (\<lambda>gw. w - 0.05 *\<^sub>R gw)"
  define bn where "bn = (\<lambda>gb. b - 0.05 * gb)"
  have "training_iteration L k =
     and_then (gradient_fn_w L k w b data) (\<lambda>(k1, gw).
     and_then (gradient_fn_b L (k1\<lparr>var_w_new := Some (wn gw)\<rparr>) w b data) (\<lambda>(k2, gb).
     and_then (average_loss L (k2\<lparr>var_b_new := Some (bn gb)\<rparr>) (wn gw) (bn gb) data) (\<lambda>(k3, c).
       Inr (k3\<lparr>stdout := stdout k3 @ [c], var_w := Some (wn gw), var_b := Some (bn gb)\<rparr>))))"
  proof (cases "gradient_fn_w L k w b data")
    case (Inl e)
    then show ?thesis
      by (simp add: training_iteration_def assign_w_new_eq [OF w b d wn_def] and_then_simps)
  next
    case (Inr r1)
    obtain k1 gw where r1: "r1 = (k1, gw)" by (cases r1)
    note g1 = Inr [unfolded r1]
    note f1 = frame_fields [OF gradient_fn_w_frame [OF g1]]
    let ?k1 = "k1\<lparr>var_w_new := Some (wn gw)\<rparr>"
    have step1: "assign_w_new L k = Inr ?k1"
      by (simp add: assign_w_new_eq [OF w b d wn_def] g1 and_then_simps)
    have w1: "var_w ?k1 = Some w" and b1: "var_b ?k1 = Some b" and d1: "var_data ?k1 = Some data"
      using f1 w b d by simp_all
    show ?thesis
    proof (cases "gradient_fn_b L ?k1 w b data")
      case (Inl e)
      then show ?thesis
        by (simp add: training_iteration_def step1 assign_b_new_eq [OF w1 b1 d1 bn_def] g1
            and_then_simps)
    next
      case (Inr r2)
      obtain k2 gb where r2: "r2 = (k2, gb)" by (cases r2)
      note g2 = Inr [unfolded r2]
      note f2 = frame_fields [OF gradient_fn_b_frame [OF g2]]
      let ?k2 = "k2\<lparr>var_b_new := Some (bn gb)\<rparr>"
      have step2: "assign_b_new L ?k1 = Inr ?k2"
        by (simp add: assign_b_new_eq [OF w1 b1 d1 bn_def] g2 and_then_simps)
      have wn2: "var_w_new ?k2 = Some (wn gw)" and bn2: "var_b_new ?k2 = Some (bn gb)"
        and d2: "var_data ?k2 = Some data"
        using f2 d1 by simp_all
      show ?thesis
      proof (cases "average_loss L ?k2 (wn gw) (bn gb) data")
        case (Inl e)
        then show ?thesis
          by (simp add: training_iteration_def step1 step2 print_loss_eq [OF wn2 bn2 d2] g1 g2
              and_then_simps)
      next
        case (Inr r3)
        obtain k3 c where r3: "r3 = (k3, c)" by (cases r3)
        note g3 = Inr [unfolded r3]
        note f3 = frame_fields [OF average_loss_frame [OF g3]]
        have wn3: "var_w_new k3 = Some (wn gw)" and bn3: "var_b_new k3 = Some (bn gb)"
          using f3 wn2 bn2 by simp_all
        show ?thesis
          by (simp add: training_iteration_def step1 step2 print_loss_eq [OF wn2 bn2 d2] g1 g2 g3
              and_then_simps assign_w_def assign_b_def lookup_simps wn3 bn3)
      qed
    qed
  qed
  then show ?thesis
    unfolding wn_def bn_def .
qed

lemma for_range_raises:
  "for_range n body k = Inr k1 \<Longrightarrow> body k1 = Inl e \<Longrightarrow> n < m \<Longrightarrow> for_range m body k = Inl e"
proof (induction n arbitrary: k m)
  case 0
  then obtain m' where "m = Suc m'" by (cases m) auto
  with 0 show ?case by simp
next
  case (Suc n)
  then obtain m' where m: "m = Suc m'" by (cases m) auto
  from Suc.prems(1) obtain k' where k': "body k = Inr k'" and rest: "for_range n body k' = Inr k1"
    by (auto split: sum.splits)
  from Suc.prems(3) m have "n < m'" by simp
  from Suc.IH [OF rest Suc.prems(2) this] k' m show ?case by simp
qed

section \<open>Evaluation on the stand-in library and on the device\<close>

lemma probs_initial: "probs initial_state = [1, 0, 0, 0]"
  by (simp add: probs_def initial_state_def)

lemma quantum_model_plain:
  "quantum_model plain_library k x w = Inr (k\<lparr>device := initial_state\<rparr>, 1)"
  by (simp add: quantum_model_def plain_library_def pauliz_expectation_def probs_initial)

lemma average_loss_plain:
  "average_loss plain_library k w b [(x, y)] = Inr (k\<lparr>device := initial_state\<rparr>, (1 + b - y)\<^sup>2)"
  by (simp add: average_loss_def model_with_bias_def quantum_model_plain loss_def)



lemma evolved: "mat_vec U initial_state = [0, complex_of_real s, complex_of_real s, 0]"
  by (simp add: mat_vec_def U_def initial_state_def)

lemma s_squared: "s\<^sup>2 = 1 / 2"
  by (simp add: s_def power_divide)

lemma cmod_real_squared: "(cmod (complex_of_real r))\<^sup>2 = r\<^sup>2"
  by (simp add: cmod_def)

lemma probs_evolved: "probs [0, complex_of_real s, complex_of_real s, 0] = [0, 1 / 2, 1 / 2, 0]"
  unfolding probs_def by (simp only: list.map cmod_real_squared s_squared) simp

lemma circuit_unitary_result:
  "circuit_unitary k =
     (k\<lparr>device := [0, complex_of_real s, complex_of_real s, 0]\<rparr>, [0, 1 / 2, 1 / 2, 0])"
  by (simp only: circuit_unitary_def evolved probs_evolved)


lemma run_to_session:
  "run_cells [cell_import, cell_device, cell_initial] fresh_kernel =
     Inr (session, Probabilities [1, 0, 0, 0])"
  apply (simp add: cell_import_def)
  apply (simp add: cell_device_def)
  apply (simp add: cell_initial_def circuit_initial_def probs_initial)
  apply (simp add: session_def fresh_kernel_def)
  apply auto
  done

lemma cell_unitary_session:
  "cell_unitary session =
     Inr (session\<lparr>bound := bound session \<union> {''s'', ''U'', ''circuit''},
            device := [0, complex_of_real s, complex_of_real s, 0]\<rparr>,
          Probabilities [0, 1 / 2, 1 / 2, 0])"
  by (simp add: cell_unitary_def circuit_unitary_result) (simp add: session_def fresh_kernel_def)

section \<open>Exceptions of the library end the call\<close>

lemma quantum_model_raises:
  assumes "angle_embedding L x [0, 1] initial_state = Inl e \<or>
     (angle_embedding L x [0, 1] initial_state = Inr s1 \<and> basic_entangler_layers L w [0, 1] s1 = Inl e) \<or>
     (angle_embedding L x [0, 1] initial_state = Inr s1 \<and> basic_entangler_layers L w [0, 1] s1 = Inr s2 \<and>
        expval_pauliz L 0 s2 = Inl e)"
  shows "quantum_model L k x w = Inl e"
  using assms by (auto simp: quantum_model_def)

lemma model_with_bias_raises:
  "quantum_model L k x w = Inl e \<Longrightarrow> model_with_bias L k x w b = Inl e"
  by (simp add: model_with_bias_def)

lemma average_loss_raises:
  assumes "sum_losses L w b pre k 0 = Inr (k1, c)" and "model_with_bias L k1 x w b = Inl e"
  shows "average_loss L k w b (pre @ (x, y) # post) = Inl e"
  using sum_losses_raises [OF assms] by (simp add: average_loss_def)

lemma on_device_raises: "f (device k) = Inl e \<Longrightarrow> on_device f k = Inl e"
  by (simp add: on_device_def)

lemma gradient_fn_w_raises:
  assumes "grad_argnum0 L (\<lambda>w' b' data'. from_kernel k (\<lambda>k'. average_loss L k' w' b' data'))
             w b data (device k) = Inl e"
  shows "gradient_fn_w L k w b data = Inl e"
  unfolding gradient_fn_w_def using assms by (rule on_device_raises)

lemma gradient_fn_b_raises:
  assumes "grad_argnum1 L (\<lambda>w' b' data'. from_kernel k (\<lambda>k'. average_loss L k' w' b' data'))
             w b data (device k) = Inl e"
  shows "gradient_fn_b L k w b data = Inl e"
  unfolding gradient_fn_b_def using assms by (rule on_device_raises)

lemma training_iteration_raises:
  fixes L :: "('x, 'w::real_vector) library"
  assumes "var_w k = Some w" and "var_b k = Some b" and "var_data k = Some data"
    and "gradient_fn_w L k w b data = Inl e \<or>
      (gradient_fn_w L k w b data = Inr (k1, gw) \<and>
       gradient_fn_b L (k1\<lparr>var_w_new := Some (w - 0.05 *\<^sub>R gw)\<rparr>) w b data = Inl e) \<or>
      (gradient_fn_w L k w b data = Inr (k1, gw) \<and>
       gradient_fn_b L (k1\<lparr>var_w_new := Some (w - 0.05 *\<^sub>R gw)\<rparr>) w b data = Inr (k2, gb) \<and>
       average_loss L (k2\<lparr>var_b_new := Some (b - 0.05 * gb)\<rparr>)
         (w - 0.05 *\<^sub>R gw) (b - 0.05 * gb) data = Inl e)"
  shows "training_iteration L k = Inl e"
  using assms(4) unfolding training_iteration_steps [OF assms(1-3)]
  by (auto simp: and_then_simps)

lemma training_loop_raises:
  assumes "n < 15" and "for_range n (training_iteration L) k = Inr kn" and "training_iteration L kn = Inl e"
  shows "training_loop L k = Inl e"
  unfolding training_loop_def using assms(2,3,1) by (rule for_range_raises)

lemma optimizer_iteration_raises:
  assumes "var_opt k = Some stepsize" and "var_w k = Some w" and "var_b k = Some b"
    and "step_and_cost L stepsize (objective L k) w b (device k) = Inl e"
  shows "optimizer_iteration L k = Inl e"
  using assms by (simp add: optimizer_iteration_def lookup_simps and_then_simps on_device_def)

lemma cell_optimizer_raises:
  assumes "''qml'' \<in> bound k" and "n < 15"
    and "for_range n (optimizer_iteration L) (k\<lparr>var_opt := Some 0.05\<rparr>) = Inr kn"
    and "optimizer_iteration L kn = Inl e"
  shows "cell_optimizer L k = Inl e"
proof -
  define k0 where "k0 = k\<lparr>var_opt := Some 0.05\<rparr>"
  from assms(3) have "for_range n (optimizer_iteration L) k0 = Inr kn"
    by (simp add: k0_def)
  from for_range_raises [OF this assms(4,2)] have "for_range 15 (optimizer_iteration L) k0 = Inl e" .
  then have "and_then (for_range 15 (optimizer_iteration L) k0) (\<lambda>k'. Inr (k', Nothing)) = Inl e"
    by (simp add: and_then_simps)
  with assms(1) show ?thesis
    unfolding cell_optimizer_def k0_def by simp
qed

lemma plain_library_fields:
  "angle_embedding plain_library = (\<lambda>x wires st. Inr st)"
  "basic_entangler_layers plain_library = (\<lambda>w wires st. Inr st)"
  "expval_pauliz plain_library = pauliz_expectation"
  "grad_argnum0 plain_library = difference_w"
  "grad_argnum1 plain_library = difference_b"
  "step_and_cost plain_library = (\<lambda>stepsize f w b st. Inl (External ''NotImplementedError''))"
  "gate plain_library = (\<lambda>g st. Inr st)"
  "sample_pauliz plain_library = (\<lambda>draw i st. Inr [1, - 1])"
  by (simp_all add: plain_library_def)

lemma failing_library_fields:
  "angle_embedding failing_library = (\<lambda>x wires st. Inl (External ''ValueError''))"
  "grad_argnum0 failing_library = difference_w"
  "grad_argnum1 failing_library = difference_b"
  by (simp_all add: failing_library_def plain_library_def)

lemma average_loss_failing:
  "average_loss failing_library k w b ((x, y) # post) = Inl (External ''ValueError'')"
  by (simp add: average_loss_def model_with_bias_def quantum_model_def failing_library_fields)

section \<open>What the cells read\<close>


lemma cell_optimizer_first_step:
  assumes q: "''qml'' \<in> bound k" and w: "var_w k = Some w" and b: "var_b k = Some b"
  shows "cell_optimizer L k =
     and_then (on_device (step_and_cost L 0.05 (objective L (k\<lparr>var_opt := Some 0.05\<rparr>)) w b)
                 (k\<lparr>var_opt := Some 0.05\<rparr>))
       (\<lambda>(k', (w', b'), cst).
          and_then (for_range 14 (optimizer_iteration L)
                      (k'\<lparr>var_w := Some w', var_b := Some b', stdout := stdout k' @ [cst]\<rparr>))
            (\<lambda>k''. Inr (k'', Nothing)))"
proof -
  define eta :: real where "eta = 0.05"
  define k0 where "k0 = k\<lparr>var_opt := Some eta\<rparr>"
  have fields: "var_opt k0 = Some eta" "var_w k0 = Some w" "var_b k0 = Some b"
    using w b by (simp_all add: k0_def)
  have first: "optimizer_iteration L k0 =
     and_then (on_device (step_and_cost L eta (objective L k0) w b) k0)
       (\<lambda>(k', (w', b'), cst).
          Inr (k'\<lparr>var_w := Some w', var_b := Some b', stdout := stdout k' @ [cst]\<rparr>))"
    by (simp add: optimizer_iteration_def fields lookup_simps and_then_simps)
  have "(15::nat) = Suc 14" by simp
  then have loop: "for_range 15 (optimizer_iteration L) k0 =
     (case optimizer_iteration L k0 of Inl e \<Rightarrow> Inl e
      | Inr k' \<Rightarrow> for_range 14 (optimizer_iteration L) k')"
    by (simp only: for_range.simps)
  have "cell_optimizer L k =
     and_then (for_range 15 (optimizer_iteration L) k0) (\<lambda>k'. Inr (k', Nothing))"
    using q by (simp add: cell_optimizer_def k0_def eta_def)
  also have "\<dots> =
     and_then (on_device (step_and_cost L eta (objective L k0) w b) k0)
       (\<lambda>(k', (w', b'), cst).
          and_then (for_range 14 (optimizer_iteration L)
                      (k'\<lparr>var_w := Some w', var_b := Some b', stdout := stdout k' @ [cst]\<rparr>))
            (\<lambda>k''. Inr (k'', Nothing)))"
    unfolding loop first
    by (cases "on_device (step_and_cost L eta (objective L k0) w b) k0")
       (auto simp: and_then_simps)
  finally show ?thesis
    unfolding k0_def eta_def .
qed

lemma cell_optimizer_no_w:
  "''qml'' \<in> bound k \<Longrightarrow> var_w k = None \<Longrightarrow> cell_optimizer L k = Inl (NameError ''w'')"
proof -
  assume q: "''qml'' \<in> bound k" and w: "var_w k = None"
  define k0 where "k0 = k\<lparr>var_opt := Some 0.05\<rparr>"
  have "optimizer_iteration L k0 = Inl (NameError ''w'')"
    using w by (simp add: optimizer_iteration_def k0_def lookup_simps and_then_simps)
  moreover have "for_range 0 (optimizer_iteration L) k0 = Inr k0" by simp
  ultimately have "for_range 15 (optimizer_iteration L) k0 = Inl (NameError ''w'')"
    using for_range_raises [of 0 "optimizer_iteration L" k0 k0 "NameError ''w''" 15] by simp
  then show ?thesis
    using q by (simp add: cell_optimizer_def k0_def and_then_simps)
qed

lemma cell_optimizer_no_b:
  "''qml'' \<in> bound k \<Longrightarrow> var_w k = Some w \<Longrightarrow> var_b k = None \<Longrightarrow>
     cell_optimizer L k = Inl (NameError ''b'')"
proof -
  assume q: "''qml'' \<in> bound k" and w: "var_w k = Some w" and b: "var_b k = None"
  define k0 where "k0 = k\<lparr>var_opt := Some 0.05\<rparr>"
  have "optimizer_iteration L k0 = Inl (NameError ''b'')"
    using w b by (simp add: optimizer_iteration_def k0_def lookup_simps and_then_simps)
  moreover have "for_range 0 (optimizer_iteration L) k0 = Inr k0" by simp
  ultimately have "for_range 15 (optimizer_iteration L) k0 = Inl (NameError ''b'')"
    using for_range_raises [of 0 "optimizer_iteration L" k0 k0 "NameError ''b''" 15] by simp
  then show ?thesis
    using q by (simp add: cell_optimizer_def k0_def and_then_simps)
qed

lemma objective_reads_names:
  "''average_loss'' \<notin> bound k \<Longrightarrow> objective L k w1 b1 st = Inl (NameError ''average_loss'')"
  "''average_loss'' \<in> bound k \<Longrightarrow> var_data k = None \<Longrightarrow> objective L k w1 b1 st = Inl (NameError ''data'')"
  "''average_loss'' \<in> bound k \<Longrightarrow> var_data k = Some data \<Longrightarrow>
     objective L k w1 b1 st = from_kernel k (\<lambda>k'. average_loss L k' w1 b1 data) st"
  by (simp_all add: objective_def from_kernel_def lookup_simps and_then_simps)

lemma sample_kernel_fields:
  "var_w sample_kernel = Some 0" "var_b sample_kernel = Some 0"
  "var_data sample_kernel = Some [([1, 2], - 1)]"
  "var_w_new sample_kernel = None" "var_b_new sample_kernel = None" "var_opt sample_kernel = None"
  "stdout sample_kernel = []" "device sample_kernel = initial_state"
  "''qml'' \<in> bound sample_kernel" "''average_loss'' \<in> bound sample_kernel"
  by (simp_all add: sample_kernel_def session_def fresh_kernel_def)

section \<open>Quantum nodes, the lambda and the PyTorch cell\<close>



lemma qnode_raises:
  assumes "operations initial_state = Inl e \<or>
     (operations initial_state = Inr st \<and> measurement st = Inl e)"
  shows "qnode operations measurement k = Inl e"
  using assms by (auto simp: qnode_def)

lemma quantum_model_qnode:
  "quantum_model L k x w =
     qnode (\<lambda>st. and_then (angle_embedding L x [0, 1] st) (basic_entangler_layers L w [0, 1]))
       (expval_pauliz L 0) k"
  by (simp add: quantum_model_def qnode_def and_then_def split: sum.splits)

lemma circuit_initial_qnode:
  "qnode Inr (\<lambda>st. Inr (probs st)) k = Inr (circuit_initial k)"
  by (simp add: qnode_def circuit_initial_def)

lemma circuit_unitary_qnode:
  "qnode (\<lambda>st. Inr (mat_vec U st)) (\<lambda>st. Inr (probs st)) k = Inr (circuit_unitary k)"
  by (simp add: qnode_def circuit_unitary_def)

lemma expval_both_raises:
  assumes "expval_pauliz L 0 st = Inl e \<or> (expval_pauliz L 0 st = Inr z0 \<and> expval_pauliz L 1 st = Inl e)"
  shows "expval_both L st = Inl e"
  using assms by (auto simp: expval_both_def and_then_simps)

lemma sample_both_raises:
  assumes "sample_pauliz L draw 0 st = Inl e \<or>
     (sample_pauliz L draw 0 st = Inr z0 \<and> sample_pauliz L draw 1 st = Inl e)"
  shows "sample_both L draw st = Inl e"
  using assms by (auto simp: sample_both_def and_then_simps)

lemma circuit_gates_raises:
  assumes "gate L (PauliX 0) initial_state = Inl e \<or>
      (gate L (PauliX 0) initial_state = Inr s1 \<and> gate L (CNOT [0, 1]) s1 = Inl e) \<or>
      (gate L (PauliX 0) initial_state = Inr s1 \<and> gate L (CNOT [0, 1]) s1 = Inr s2 \<and>
         gate L (Hadamard 0) s2 = Inl e) \<or>
      (gate L (PauliX 0) initial_state = Inr s1 \<and> gate L (CNOT [0, 1]) s1 = Inr s2 \<and>
         gate L (Hadamard 0) s2 = Inr s3 \<and> gate L (PauliZ 1) s3 = Inl e) \<or>
      (gate L (PauliX 0) initial_state = Inr s1 \<and> gate L (CNOT [0, 1]) s1 = Inr s2 \<and>
         gate L (Hadamard 0) s2 = Inr s3 \<and> gate L (PauliZ 1) s3 = Inr st \<and>
         expval_both L st = Inl e)"
  shows "circuit_gates L k = Inl e"
  using assms by (auto simp: circuit_gates_def qnode_def and_then_simps)

lemma circuit_rotations_raises:
  assumes "gate L (RX w1 0) initial_state = Inl e \<or>
      (gate L (RX w1 0) initial_state = Inr s1 \<and> gate L (CNOT [0, 1]) s1 = Inl e) \<or>
      (gate L (RX w1 0) initial_state = Inr s1 \<and> gate L (CNOT [0, 1]) s1 = Inr s2 \<and>
         gate L (RY w2 1) s2 = Inl e) \<or>
      (gate L (RX w1 0) initial_state = Inr s1 \<and> gate L (CNOT [0, 1]) s1 = Inr s2 \<and>
         gate L (RY w2 1) s2 = Inr st \<and> expval_both L st = Inl e)"
  shows "circuit_rotations L k w1 w2 = Inl e"
  using assms by (auto simp: circuit_rotations_def qnode_def and_then_simps)

text \<open>The lambda of the optimizer cell and the closure that \<^verbatim>\<open>qml.grad\<close> differentiates.\<close>

lemma objective_raises:
  assumes "''average_loss'' \<in> bound k" and "var_data k = Some data"
    and "average_loss L (k\<lparr>device := st\<rparr>) w1 b1 data = Inl e"
  shows "objective L k w1 b1 st = Inl e"
  using assms by (simp add: objective_def from_kernel_def lookup_simps and_then_simps)

lemma from_kernel_raises:
  "f (k\<lparr>device := st\<rparr>) = Inl e \<Longrightarrow> from_kernel k f st = Inl e"
  by (simp add: from_kernel_def)




lemma sum_losses_torch_raises:
  assumes "sum_losses_torch L w pre k c = Inr (k1, c1)" and "quantum_model L k1 x w = Inl e"
  shows "sum_losses_torch L w (pre @ (x, y) # post) k c = Inl e"
  using assms
proof (induction pre arbitrary: k c)
  case Nil
  then show ?case by simp
next
  case (Cons p pre)
  obtain x' y' where p: "p = (x', y')" by (cases p)
  from Cons.prems(1) p obtain k2 v where
    step: "quantum_model L k x' w = Inr (k2, v)" and
    rest: "sum_losses_torch L w pre k2 (c + loss v y') = Inr (k1, c1)"
    by (auto split: sum.splits)
  from Cons.IH [OF rest Cons.prems(2)] p step show ?case by simp
qed

lemma average_loss_torch_raises:
  assumes "sum_losses_torch L w pre k 0 = Inr (k1, c)" and "quantum_model L k1 x w = Inl e"
  shows "average_loss_torch L k w (pre @ (x, y) # post) = Inl e"
  using sum_losses_torch_raises [OF assms] by (simp add: average_loss_torch_def)



lemma closure_raises:
  assumes "zero_grad T ts = Inl e \<or>
     (zero_grad T ts = Inr ts1 \<and> var_w k = Some w \<and> var_data k = Some data \<and>
        average_loss_torch L k w data = Inl e) \<or>
     (zero_grad T ts = Inr ts1 \<and> var_w k = Some w \<and> var_data k = Some data \<and>
        average_loss_torch L k w data = Inr (k1, l) \<and>
        backward T (\<lambda>w'. from_kernel k (\<lambda>k'. average_loss_torch L k' w' data)) w ts1 (device k1) = Inl e)"
  shows "closure L T (k, ts) = Inl e"
  using assms by (auto simp: closure_def lookup_simps and_then_simps)

lemma closure_in_torch_raises:
  "closure L T (k\<lparr>device := st\<rparr>, ts) = Inl e \<Longrightarrow> closure_in_torch L T k ts st = Inl e"
  by (simp add: closure_in_torch_def)

lemma print_loss_torch_raises:
  assumes "var_w k = Some w" and "var_data k = Some data" and "average_loss_torch L k w data = Inl e"
  shows "print_loss_torch L (k, ts) = Inl e"
  using assms by (simp add: print_loss_torch_def lookup_simps and_then_simps)

lemma torch_iteration_raises:
  assumes "var_w k = Some w"
    and "adam_step T (closure_in_torch L T k) w ts (device k) = Inl e \<or>
      (adam_step T (closure_in_torch L T k) w ts (device k) = Inr ((st, ts'), w') \<and>
       print_loss_torch L (k\<lparr>device := st, var_w := Some w'\<rparr>, ts') = Inl e)"
  shows "torch_iteration L T (k, ts) = Inl e"
  using assms by (auto simp: torch_iteration_def lookup_simps and_then_simps)

lemma torch_loop_raises:
  assumes "n < 15" and "for_range n (torch_iteration L T) kt = Inr kn" and "torch_iteration L T kn = Inl e"
  shows "torch_loop L T kt = Inl e"
  unfolding torch_loop_def using assms(2,3,1) by (rule for_range_raises)


section \<open>Evaluation on the other stand-ins\<close>

lemma scaling_library_fields:
  "angle_embedding scaling_library = (\<lambda>x wires st. Inr st)"
  "basic_entangler_layers scaling_library = (\<lambda>w wires st. Inr (map (\<lambda>a. complex_of_real w * a) st))"
  "expval_pauliz scaling_library = pauliz_expectation"
  "grad_argnum0 scaling_library = difference_w"
  "grad_argnum1 scaling_library = difference_b"
  by (simp_all add: scaling_library_def plain_library_def)

lemma quantum_model_scaling:
  "quantum_model scaling_library k x w = Inr (k\<lparr>device := [complex_of_real w, 0, 0, 0]\<rparr>, w\<^sup>2)"
  by (simp add: quantum_model_def scaling_library_fields initial_state_def pauliz_expectation_def
      probs_def cmod_real_squared)

lemma average_loss_scaling:
  "average_loss scaling_library k w b [(x, y)] =
     Inr (k\<lparr>device := [complex_of_real w, 0, 0, 0]\<rparr>, (w\<^sup>2 + b - y)\<^sup>2)"
  by (simp add: average_loss_def model_with_bias_def quantum_model_scaling loss_def)

lemma grad_w_scaling:
  "on_device (grad_argnum0 scaling_library
       (\<lambda>w' b' data'. from_kernel k (\<lambda>k'. average_loss scaling_library k' w' b' data'))
       w b [(x, y)]) k =
     Inr (k\<lparr>device := [complex_of_real (w - 1), 0, 0, 0]\<rparr>,
          (((w + 1)\<^sup>2 + b - y)\<^sup>2 - ((w - 1)\<^sup>2 + b - y)\<^sup>2) / 2)"
  by (simp add: on_device_def scaling_library_fields difference_w_def from_kernel_def
      average_loss_scaling and_then_simps)

lemma grad_b_scaling:
  "on_device (grad_argnum1 scaling_library
       (\<lambda>w' b' data'. from_kernel k (\<lambda>k'. average_loss scaling_library k' w' b' data'))
       w b [(x, y)]) k =
     Inr (k\<lparr>device := [complex_of_real w, 0, 0, 0]\<rparr>,
          ((w\<^sup>2 + (b + 1) - y)\<^sup>2 - (w\<^sup>2 + (b - 1) - y)\<^sup>2) / 2)"
  by (simp add: on_device_def scaling_library_fields difference_b_def from_kernel_def
      average_loss_scaling and_then_simps)

lemma plain_torch_fields:
  "zero_grad plain_torch = (\<lambda>ts. Inr ts)"
  "backward plain_torch = (\<lambda>f w ts st. Inr (st, Suc ts))"
  "adam_step plain_torch = (\<lambda>cl w ts st. and_then (cl ts st) (\<lambda>(r, l). Inr (r, w - l)))"
  by (simp_all add: plain_torch_def)

lemma unit_kernel_fields:
  "var_w unit_kernel = Some 1" "var_b unit_kernel = Some 0"
  "var_data unit_kernel = Some [([1, 2], - 1)]"
  by (simp_all add: unit_kernel_def sample_kernel_def)

lemma broken_library_fields:
  "expval_pauliz broken_library = (\<lambda>i st. Inl (External ''DeviceError''))"
  "gate broken_library = (\<lambda>g st. Inl (External ''DeviceError''))"
  "sample_pauliz broken_library = (\<lambda>draw i st. Inl (External ''DeviceError''))"
  by (simp_all add: broken_library_def)

section \<open>The claims\<close>

text \<open>
  C1. \<^verbatim>\<open>gradient_fn_w\<close> is \<^verbatim>\<open>qml.grad(average_loss, argnum=0)\<close> and \<^verbatim>\<open>gradient_fn_b\<close> is
  \<^verbatim>\<open>qml.grad(average_loss, argnum=1)\<close>: the gradient of the library, \<open>grad_argnum0 L\<close> and
  \<open>grad_argnum1 L\<close>, of \<open>average_loss\<close>. One iteration of the hand-coded loop, started with
  \<^verbatim>\<open>w\<close>, \<^verbatim>\<open>b\<close> and \<^verbatim>\<open>data\<close> bound, evaluates the first at \<open>(w, b, data)\<close>, then the second
  at the same old \<open>(w, b, data)\<close> (only \<^verbatim>\<open>w_new\<close> has been assigned in between), then
  prints the loss at the new pair, and ends with \<^verbatim>\<open>w = w - 0.05 * gw\<close> and
  \<^verbatim>\<open>b = b - 0.05 * gb\<close>: a simultaneous update. An exception of any of the three calls
  ends the iteration.
\<close>

theorem training_iteration_simultaneous_update:
  fixes L :: "('x, 'w::real_vector) library"
  assumes "var_w k = Some w" and "var_b k = Some b" and "var_data k = Some data"
  shows "training_iteration L k =
     and_then
       (on_device (grad_argnum0 L (\<lambda>w' b' data'. from_kernel k (\<lambda>k'. average_loss L k' w' b' data'))
          w b data) k)
       (\<lambda>(k1, gw).
     and_then
       (on_device (grad_argnum1 L
          (\<lambda>w' b' data'. from_kernel (k1\<lparr>var_w_new := Some (w - 0.05 *\<^sub>R gw)\<rparr>)
             (\<lambda>k'. average_loss L k' w' b' data'))
          w b data) (k1\<lparr>var_w_new := Some (w - 0.05 *\<^sub>R gw)\<rparr>))
       (\<lambda>(k2, gb).
     and_then (average_loss L (k2\<lparr>var_b_new := Some (b - 0.05 * gb)\<rparr>)
                 (w - 0.05 *\<^sub>R gw) (b - 0.05 * gb) data) (\<lambda>(k3, c).
       Inr (k3\<lparr>stdout := stdout k3 @ [c],
               var_w := Some (w - 0.05 *\<^sub>R gw),
               var_b := Some (b - 0.05 * gb)\<rparr>))))"
  using training_iteration_steps [OF assms, of L]
  unfolding gradient_fn_w_def gradient_fn_b_def .

text \<open>
  On \<open>scaling_library\<close> the model is \<open>w\<^sup>2\<close>, so the gradient with respect to \<open>b\<close> depends
  on \<open>w\<close>. From \<open>w = 1\<close> and \<open>b = 0\<close> the gradient with respect to \<open>w\<close> is 12 and the new
  weight \<open>2/5\<close>; the gradient with respect to \<open>b\<close> is 4 at the old weight and would be
  \<open>58/25\<close> at the new one. The iteration ends with \<open>b = - 1/5\<close>: it used the old weight.
\<close>

theorem training_iteration_simultaneous_update_witness:
  "var_w unit_kernel = Some 1 \<and> var_b unit_kernel = Some 0 \<and>
   var_data unit_kernel = Some [([1, 2], - 1)] \<and>
   gradient_fn_w scaling_library unit_kernel 1 0 [([1, 2], - 1)]
     = Inr (unit_kernel\<lparr>device := [0, 0, 0, 0]\<rparr>, 12) \<and>
   gradient_fn_b scaling_library (unit_kernel\<lparr>device := [0, 0, 0, 0], var_w_new := Some (2 / 5)\<rparr>)
       1 0 [([1, 2], - 1)]
     = Inr (unit_kernel\<lparr>device := [1, 0, 0, 0], var_w_new := Some (2 / 5)\<rparr>, 4) \<and>
   gradient_fn_b scaling_library (unit_kernel\<lparr>device := [0, 0, 0, 0], var_w_new := Some (2 / 5)\<rparr>)
       (2 / 5) 0 [([1, 2], - 1)]
     = Inr (unit_kernel\<lparr>device := [2 / 5, 0, 0, 0], var_w_new := Some (2 / 5)\<rparr>, 58 / 25) \<and>
   training_iteration scaling_library unit_kernel =
     Inr (unit_kernel\<lparr>var_w_new := Some (2 / 5), var_b_new := Some (- (1 / 5)),
            device := [2 / 5, 0, 0, 0], stdout := [576 / 625],
            var_w := Some (2 / 5), var_b := Some (- (1 / 5))\<rparr>)"
proof -
  have gw: "gradient_fn_w scaling_library unit_kernel 1 0 [([1, 2], - 1)]
     = Inr (unit_kernel\<lparr>device := [0, 0, 0, 0]\<rparr>, 12)"
    unfolding gradient_fn_w_def grad_w_scaling by (simp add: power2_eq_square)
  have gb: "gradient_fn_b scaling_library (unit_kernel\<lparr>device := [0, 0, 0, 0], var_w_new := Some (2 / 5)\<rparr>)
       1 0 [([1, 2], - 1)]
     = Inr (unit_kernel\<lparr>device := [1, 0, 0, 0], var_w_new := Some (2 / 5)\<rparr>, 4)"
    unfolding gradient_fn_b_def grad_b_scaling by (simp add: power2_eq_square)
  have gs: "gradient_fn_b scaling_library (unit_kernel\<lparr>device := [0, 0, 0, 0], var_w_new := Some (2 / 5)\<rparr>)
       (2 / 5) 0 [([1, 2], - 1)]
     = Inr (unit_kernel\<lparr>device := [2 / 5, 0, 0, 0], var_w_new := Some (2 / 5)\<rparr>, 58 / 25)"
    unfolding gradient_fn_b_def grad_b_scaling by (simp add: power2_eq_square)
  have "training_iteration scaling_library unit_kernel =
     Inr (unit_kernel\<lparr>var_w_new := Some (2 / 5), var_b_new := Some (- (1 / 5)),
            device := [2 / 5, 0, 0, 0], stdout := [576 / 625],
            var_w := Some (2 / 5), var_b := Some (- (1 / 5))\<rparr>)"
    unfolding training_iteration_simultaneous_update [OF unit_kernel_fields, of scaling_library]
      grad_w_scaling
    apply (simp add: and_then_simps)
    unfolding grad_b_scaling
    apply (simp add: and_then_simps average_loss_scaling power2_eq_square)
    apply (simp add: unit_kernel_def sample_kernel_def session_def fresh_kernel_def)
    done
  with gw gb gs unit_kernel_fields show ?thesis by simp
qed

text \<open>
  C3. No function of the notebook catches an exception. An exception \<open>e\<close> raised by a
  library call inside \<^verbatim>\<open>quantum_model\<close> (either template, or the expectation value) is
  raised by \<^verbatim>\<open>quantum_model\<close>, hence by \<^verbatim>\<open>model_with_bias\<close>, hence by \<^verbatim>\<open>average_loss\<close>
  at the first sample that fails; an exception of \<^verbatim>\<open>qml.grad\<close>'s functions is raised by
  \<^verbatim>\<open>gradient_fn_w\<close> and \<^verbatim>\<open>gradient_fn_b\<close>; an exception of either gradient function or
  of the printed \<^verbatim>\<open>average_loss\<close> ends the iteration of the hand-coded loop, and the
  loop; an exception of \<^verbatim>\<open>step_and_cost\<close> ends the iteration of the optimizer loop, and
  its cell. The lambda that the optimizer cell gives to \<^verbatim>\<open>step_and_cost\<close> raises what
  \<^verbatim>\<open>average_loss\<close> raises, and so does the function that \<^verbatim>\<open>qml.grad\<close> is given. A quantum
  node raises what its operations or its measurement raise: so do the pairs of
  expectation values and of samples, and each function \<^verbatim>\<open>circuit\<close> of the earlier cells
  at the first gate or measurement that fails. In the PyTorch cell \<^verbatim>\<open>average_loss\<close>
  raises what the quantum node raises at the first sample that fails, \<^verbatim>\<open>closure\<close> what
  \<^verbatim>\<open>zero_grad\<close>, \<^verbatim>\<open>average_loss\<close> or \<^verbatim>\<open>backward\<close> raises, also when PyTorch calls it, and
  an exception of \<^verbatim>\<open>opt.step\<close> or of the printed \<^verbatim>\<open>average_loss\<close> ends the iteration and
  the loop. Each time it is the same \<open>e\<close>. (\<^verbatim>\<open>loss\<close> calls nothing.)
\<close>

theorem library_errors_propagate:
  fixes L :: "('x, 'w::real_vector) library"
  shows
  "(\<forall>s1 s2. angle_embedding L x [0, 1] initial_state = Inl e \<or>
      (angle_embedding L x [0, 1] initial_state = Inr s1 \<and> basic_entangler_layers L w [0, 1] s1 = Inl e) \<or>
      (angle_embedding L x [0, 1] initial_state = Inr s1 \<and> basic_entangler_layers L w [0, 1] s1 = Inr s2 \<and>
         expval_pauliz L 0 s2 = Inl e)
      \<longrightarrow> quantum_model L k x w = Inl e) \<and>
   (quantum_model L k x w = Inl e \<longrightarrow> model_with_bias L k x w b = Inl e) \<and>
   (\<forall>pre post y k1 c. sum_losses L w b pre k 0 = Inr (k1, c) \<and> model_with_bias L k1 x w b = Inl e
      \<longrightarrow> average_loss L k w b (pre @ (x, y) # post) = Inl e) \<and>
   (grad_argnum0 L (\<lambda>w' b' data'. from_kernel k (\<lambda>k'. average_loss L k' w' b' data'))
        w b data (device k) = Inl e
      \<longrightarrow> gradient_fn_w L k w b data = Inl e) \<and>
   (grad_argnum1 L (\<lambda>w' b' data'. from_kernel k (\<lambda>k'. average_loss L k' w' b' data'))
        w b data (device k) = Inl e
      \<longrightarrow> gradient_fn_b L k w b data = Inl e) \<and>
   (\<forall>k1 gw k2 gb. var_w k = Some w \<and> var_b k = Some b \<and> var_data k = Some data \<and>
      (gradient_fn_w L k w b data = Inl e \<or>
       (gradient_fn_w L k w b data = Inr (k1, gw) \<and>
        gradient_fn_b L (k1\<lparr>var_w_new := Some (w - 0.05 *\<^sub>R gw)\<rparr>) w b data = Inl e) \<or>
       (gradient_fn_w L k w b data = Inr (k1, gw) \<and>
        gradient_fn_b L (k1\<lparr>var_w_new := Some (w - 0.05 *\<^sub>R gw)\<rparr>) w b data = Inr (k2, gb) \<and>
        average_loss L (k2\<lparr>var_b_new := Some (b - 0.05 * gb)\<rparr>)
          (w - 0.05 *\<^sub>R gw) (b - 0.05 * gb) data = Inl e))
      \<longrightarrow> training_iteration L k = Inl e) \<and>
   (\<forall>n kn. n < 15 \<and> for_range n (training_iteration L) k = Inr kn \<and> training_iteration L kn = Inl e
      \<longrightarrow> training_loop L k = Inl e) \<and>
   (\<forall>stepsize. var_opt k = Some stepsize \<and> var_w k = Some w \<and> var_b k = Some b \<and>
      step_and_cost L stepsize (objective L k) w b (device k) = Inl e
      \<longrightarrow> optimizer_iteration L k = Inl e) \<and>
   (\<forall>n kn. ''qml'' \<in> bound k \<and> n < 15 \<and>
      for_range n (optimizer_iteration L) (k\<lparr>var_opt := Some 0.05\<rparr>) = Inr kn \<and>
      optimizer_iteration L kn = Inl e
      \<longrightarrow> cell_optimizer L k = Inl e) \<and>
   (\<forall>st. ''average_loss'' \<in> bound k \<and> var_data k = Some data \<and>
      average_loss L (k\<lparr>device := st\<rparr>) w b data = Inl e
      \<longrightarrow> objective L k w b st = Inl e) \<and>
   (\<forall>st. average_loss L (k\<lparr>device := st\<rparr>) w b data = Inl e
      \<longrightarrow> from_kernel k (\<lambda>k'. average_loss L k' w b data) st = Inl e) \<and>
   (\<forall>operations (measurement :: statevector \<Rightarrow> error + 'm) st. operations initial_state = Inl e \<or>
      (operations initial_state = Inr st \<and> measurement st = Inl e)
      \<longrightarrow> qnode operations measurement k = Inl e) \<and>
   (\<forall>st z0. expval_pauliz L 0 st = Inl e \<or>
      (expval_pauliz L 0 st = Inr z0 \<and> expval_pauliz L 1 st = Inl e)
      \<longrightarrow> expval_both L st = Inl e) \<and>
   (\<forall>draw st z0. sample_pauliz L draw 0 st = Inl e \<or>
      (sample_pauliz L draw 0 st = Inr z0 \<and> sample_pauliz L draw 1 st = Inl e)
      \<longrightarrow> sample_both L draw st = Inl e) \<and>
   (gate L (Hadamard 0) initial_state = Inl e
      \<longrightarrow> circuit_hadamard L k = Inl e) \<and>
   (\<forall>draw. sample_both L draw (mat_vec U initial_state) = Inl e
      \<longrightarrow> circuit_sample L draw k = Inl e) \<and>
   (expval_both L (mat_vec U initial_state) = Inl e
      \<longrightarrow> circuit_expval L k = Inl e) \<and>
   (\<forall>s1 s2 s3 st. gate L (PauliX 0) initial_state = Inl e \<or>
      (gate L (PauliX 0) initial_state = Inr s1 \<and> gate L (CNOT [0, 1]) s1 = Inl e) \<or>
      (gate L (PauliX 0) initial_state = Inr s1 \<and> gate L (CNOT [0, 1]) s1 = Inr s2 \<and>
         gate L (Hadamard 0) s2 = Inl e) \<or>
      (gate L (PauliX 0) initial_state = Inr s1 \<and> gate L (CNOT [0, 1]) s1 = Inr s2 \<and>
         gate L (Hadamard 0) s2 = Inr s3 \<and> gate L (PauliZ 1) s3 = Inl e) \<or>
      (gate L (PauliX 0) initial_state = Inr s1 \<and> gate L (CNOT [0, 1]) s1 = Inr s2 \<and>
         gate L (Hadamard 0) s2 = Inr s3 \<and> gate L (PauliZ 1) s3 = Inr st \<and>
         expval_both L st = Inl e)
      \<longrightarrow> circuit_gates L k = Inl e) \<and>
   (\<forall>w1 w2 s1 s2 st. gate L (RX w1 0) initial_state = Inl e \<or>
      (gate L (RX w1 0) initial_state = Inr s1 \<and> gate L (CNOT [0, 1]) s1 = Inl e) \<or>
      (gate L (RX w1 0) initial_state = Inr s1 \<and> gate L (CNOT [0, 1]) s1 = Inr s2 \<and>
         gate L (RY w2 1) s2 = Inl e) \<or>
      (gate L (RX w1 0) initial_state = Inr s1 \<and> gate L (CNOT [0, 1]) s1 = Inr s2 \<and>
         gate L (RY w2 1) s2 = Inr st \<and> expval_both L st = Inl e)
      \<longrightarrow> circuit_rotations L k w1 w2 = Inl e) \<and>
   (\<forall>pre post y k1 c. sum_losses_torch L w pre k 0 = Inr (k1, c) \<and> quantum_model L k1 x w = Inl e
      \<longrightarrow> average_loss_torch L k w (pre @ (x, y) # post) = Inl e) \<and>
   (\<forall>(T :: ('w, 't) torch) ts ts1 k1 l. zero_grad T ts = Inl e \<or>
      (zero_grad T ts = Inr ts1 \<and> var_w k = Some w \<and> var_data k = Some data \<and>
         average_loss_torch L k w data = Inl e) \<or>
      (zero_grad T ts = Inr ts1 \<and> var_w k = Some w \<and> var_data k = Some data \<and>
         average_loss_torch L k w data = Inr (k1, l) \<and>
         backward T (\<lambda>w'. from_kernel k (\<lambda>k'. average_loss_torch L k' w' data)) w ts1 (device k1)
           = Inl e)
      \<longrightarrow> closure L T (k, ts) = Inl e) \<and>
   (\<forall>(T :: ('w, 't) torch) ts st. closure L T (k\<lparr>device := st\<rparr>, ts) = Inl e
      \<longrightarrow> closure_in_torch L T k ts st = Inl e) \<and>
   (\<forall>ts. var_w k = Some w \<and> var_data k = Some data \<and> average_loss_torch L k w data = Inl e
      \<longrightarrow> print_loss_torch L (k, ts) = Inl e) \<and>
   (\<forall>(T :: ('w, 't) torch) ts st ts' w'. var_w k = Some w \<and>
      (adam_step T (closure_in_torch L T k) w ts (device k) = Inl e \<or>
       (adam_step T (closure_in_torch L T k) w ts (device k) = Inr ((st, ts'), w') \<and>
        print_loss_torch L (k\<lparr>device := st, var_w := Some w'\<rparr>, ts') = Inl e))
      \<longrightarrow> torch_iteration L T (k, ts) = Inl e) \<and>
   (\<forall>(T :: ('w, 't) torch) n kt kn. n < 15 \<and> for_range n (torch_iteration L T) kt = Inr kn \<and>
      torch_iteration L T kn = Inl e
      \<longrightarrow> torch_loop L T kt = Inl e)"
proof (intro conjI allI impI)
  fix s1 s2
  assume "angle_embedding L x [0, 1] initial_state = Inl e \<or>
      (angle_embedding L x [0, 1] initial_state = Inr s1 \<and> basic_entangler_layers L w [0, 1] s1 = Inl e) \<or>
      (angle_embedding L x [0, 1] initial_state = Inr s1 \<and> basic_entangler_layers L w [0, 1] s1 = Inr s2 \<and>
         expval_pauliz L 0 s2 = Inl e)"
  then show "quantum_model L k x w = Inl e" by (rule quantum_model_raises)
next
  assume "quantum_model L k x w = Inl e"
  then show "model_with_bias L k x w b = Inl e" by (rule model_with_bias_raises)
next
  fix pre post y k1 c
  assume "sum_losses L w b pre k 0 = Inr (k1, c) \<and> model_with_bias L k1 x w b = Inl e"
  then show "average_loss L k w b (pre @ (x, y) # post) = Inl e"
    by (blast intro: average_loss_raises)
next
  assume "grad_argnum0 L (\<lambda>w' b' data'. from_kernel k (\<lambda>k'. average_loss L k' w' b' data'))
        w b data (device k) = Inl e"
  then show "gradient_fn_w L k w b data = Inl e" by (rule gradient_fn_w_raises)
next
  assume "grad_argnum1 L (\<lambda>w' b' data'. from_kernel k (\<lambda>k'. average_loss L k' w' b' data'))
        w b data (device k) = Inl e"
  then show "gradient_fn_b L k w b data = Inl e" by (rule gradient_fn_b_raises)
next
  fix k1 gw k2 gb
  assume "var_w k = Some w \<and> var_b k = Some b \<and> var_data k = Some data \<and>
      (gradient_fn_w L k w b data = Inl e \<or>
       (gradient_fn_w L k w b data = Inr (k1, gw) \<and>
        gradient_fn_b L (k1\<lparr>var_w_new := Some (w - 0.05 *\<^sub>R gw)\<rparr>) w b data = Inl e) \<or>
       (gradient_fn_w L k w b data = Inr (k1, gw) \<and>
        gradient_fn_b L (k1\<lparr>var_w_new := Some (w - 0.05 *\<^sub>R gw)\<rparr>) w b data = Inr (k2, gb) \<and>
        average_loss L (k2\<lparr>var_b_new := Some (b - 0.05 * gb)\<rparr>)
          (w - 0.05 *\<^sub>R gw) (b - 0.05 * gb) data = Inl e))"
  then show "training_iteration L k = Inl e"
    using training_iteration_raises [of k w b data L e k1 gw k2 gb] by blast
next
  fix n kn
  assume "n < 15 \<and> for_range n (training_iteration L) k = Inr kn \<and> training_iteration L kn = Inl e"
  then show "training_loop L k = Inl e" by (blast intro: training_loop_raises)
next
  fix stepsize
  assume "var_opt k = Some stepsize \<and> var_w k = Some w \<and> var_b k = Some b \<and>
      step_and_cost L stepsize (objective L k) w b (device k) = Inl e"
  then show "optimizer_iteration L k = Inl e" by (blast intro: optimizer_iteration_raises)
next
  fix n kn
  assume "''qml'' \<in> bound k \<and> n < 15 \<and>
      for_range n (optimizer_iteration L) (k\<lparr>var_opt := Some 0.05\<rparr>) = Inr kn \<and>
      optimizer_iteration L kn = Inl e"
  then show "cell_optimizer L k = Inl e" by (blast intro: cell_optimizer_raises)
next
  fix st
  assume "''average_loss'' \<in> bound k \<and> var_data k = Some data \<and>
      average_loss L (k\<lparr>device := st\<rparr>) w b data = Inl e"
  then show "objective L k w b st = Inl e"
    by (blast intro: objective_raises)
next
  fix st
  assume "average_loss L (k\<lparr>device := st\<rparr>) w b data = Inl e"
  then show "from_kernel k (\<lambda>k'. average_loss L k' w b data) st = Inl e"
    by (rule from_kernel_raises)
next
  fix operations :: "statevector \<Rightarrow> error + statevector"
    and measurement :: "statevector \<Rightarrow> error + 'm" and st
  assume "operations initial_state = Inl e \<or>
      (operations initial_state = Inr st \<and> measurement st = Inl e)"
  then show "qnode operations measurement k = Inl e"
    by (rule qnode_raises)
next
  fix st z0
  assume "expval_pauliz L 0 st = Inl e \<or>
      (expval_pauliz L 0 st = Inr z0 \<and> expval_pauliz L 1 st = Inl e)"
  then show "expval_both L st = Inl e"
    by (rule expval_both_raises)
next
  fix draw st z0
  assume "sample_pauliz L draw 0 st = Inl e \<or>
      (sample_pauliz L draw 0 st = Inr z0 \<and> sample_pauliz L draw 1 st = Inl e)"
  then show "sample_both L draw st = Inl e"
    by (rule sample_both_raises)
next
  assume "gate L (Hadamard 0) initial_state = Inl e"
  then show "circuit_hadamard L k = Inl e"
    by (simp add: circuit_hadamard_def qnode_def)
next
  fix draw
  assume "sample_both L draw (mat_vec U initial_state) = Inl e"
  then show "circuit_sample L draw k = Inl e"
    by (simp add: circuit_sample_def qnode_def)
next
  assume "expval_both L (mat_vec U initial_state) = Inl e"
  then show "circuit_expval L k = Inl e"
    by (simp add: circuit_expval_def qnode_def)
next
  fix s1 s2 s3 st
  assume "gate L (PauliX 0) initial_state = Inl e \<or>
      (gate L (PauliX 0) initial_state = Inr s1 \<and> gate L (CNOT [0, 1]) s1 = Inl e) \<or>
      (gate L (PauliX 0) initial_state = Inr s1 \<and> gate L (CNOT [0, 1]) s1 = Inr s2 \<and>
         gate L (Hadamard 0) s2 = Inl e) \<or>
      (gate L (PauliX 0) initial_state = Inr s1 \<and> gate L (CNOT [0, 1]) s1 = Inr s2 \<and>
         gate L (Hadamard 0) s2 = Inr s3 \<and> gate L (PauliZ 1) s3 = Inl e) \<or>
      (gate L (PauliX 0) initial_state = Inr s1 \<and> gate L (CNOT [0, 1]) s1 = Inr s2 \<and>
         gate L (Hadamard 0) s2 = Inr s3 \<and> gate L (PauliZ 1) s3 = Inr st \<and>
         expval_both L st = Inl e)"
  then show "circuit_gates L k = Inl e"
    by (rule circuit_gates_raises)
next
  fix w1 w2 s1 s2 st
  assume "gate L (RX w1 0) initial_state = Inl e \<or>
      (gate L (RX w1 0) initial_state = Inr s1 \<and> gate L (CNOT [0, 1]) s1 = Inl e) \<or>
      (gate L (RX w1 0) initial_state = Inr s1 \<and> gate L (CNOT [0, 1]) s1 = Inr s2 \<and>
         gate L (RY w2 1) s2 = Inl e) \<or>
      (gate L (RX w1 0) initial_state = Inr s1 \<and> gate L (CNOT [0, 1]) s1 = Inr s2 \<and>
         gate L (RY w2 1) s2 = Inr st \<and> expval_both L st = Inl e)"
  then show "circuit_rotations L k w1 w2 = Inl e"
    by (rule circuit_rotations_raises)
next
  fix pre post y k1 c
  assume "sum_losses_torch L w pre k 0 = Inr (k1, c) \<and> quantum_model L k1 x w = Inl e"
  then show "average_loss_torch L k w (pre @ (x, y) # post) = Inl e"
    by (blast intro: average_loss_torch_raises)
next
  fix T :: "('w, 't) torch" and ts ts1 k1 l
  assume "zero_grad T ts = Inl e \<or>
      (zero_grad T ts = Inr ts1 \<and> var_w k = Some w \<and> var_data k = Some data \<and>
         average_loss_torch L k w data = Inl e) \<or>
      (zero_grad T ts = Inr ts1 \<and> var_w k = Some w \<and> var_data k = Some data \<and>
         average_loss_torch L k w data = Inr (k1, l) \<and>
         backward T (\<lambda>w'. from_kernel k (\<lambda>k'. average_loss_torch L k' w' data)) w ts1 (device k1)
           = Inl e)"
  then show "closure L T (k, ts) = Inl e"
    by (rule closure_raises)
next
  fix T :: "('w, 't) torch" and ts st
  assume "closure L T (k\<lparr>device := st\<rparr>, ts) = Inl e"
  then show "closure_in_torch L T k ts st = Inl e"
    by (rule closure_in_torch_raises)
next
  fix ts
  assume "var_w k = Some w \<and> var_data k = Some data \<and> average_loss_torch L k w data = Inl e"
  then show "print_loss_torch L (k, ts) = Inl e"
    by (blast intro: print_loss_torch_raises)
next
  fix T :: "('w, 't) torch" and ts st ts' w'
  assume "var_w k = Some w \<and>
      (adam_step T (closure_in_torch L T k) w ts (device k) = Inl e \<or>
       (adam_step T (closure_in_torch L T k) w ts (device k) = Inr ((st, ts'), w') \<and>
        print_loss_torch L (k\<lparr>device := st, var_w := Some w'\<rparr>, ts') = Inl e))"
  then show "torch_iteration L T (k, ts) = Inl e"
    by (blast intro: torch_iteration_raises)
next
  fix T :: "('w, 't) torch" and n kt kn
  assume "n < 15 \<and> for_range n (torch_iteration L T) kt = Inr kn \<and>
      torch_iteration L T kn = Inl e"
  then show "torch_loop L T kt = Inl e"
    by (blast intro: torch_loop_raises)
qed

theorem library_errors_propagate_witness:
  "quantum_model failing_library sample_kernel [1, 2] 0 = Inl (External ''ValueError'') \<and>
   model_with_bias failing_library sample_kernel [1, 2] 0 0 = Inl (External ''ValueError'') \<and>
   average_loss failing_library sample_kernel 0 0 [([1, 2], - 1)] = Inl (External ''ValueError'') \<and>
   gradient_fn_w failing_library sample_kernel 0 0 [([1, 2], - 1)] = Inl (External ''ValueError'') \<and>
   gradient_fn_b failing_library sample_kernel 0 0 [([1, 2], - 1)] = Inl (External ''ValueError'') \<and>
   training_iteration failing_library sample_kernel = Inl (External ''ValueError'') \<and>
   training_loop failing_library sample_kernel = Inl (External ''ValueError'') \<and>
   optimizer_iteration plain_library (sample_kernel\<lparr>var_opt := Some 0.05\<rparr>)
     = Inl (External ''NotImplementedError'') \<and>
   cell_optimizer plain_library sample_kernel = Inl (External ''NotImplementedError'') \<and>
   objective failing_library sample_kernel 0 0 initial_state = Inl (External ''ValueError'') \<and>
   from_kernel sample_kernel (\<lambda>k'. average_loss failing_library k' 0 0 [([1, 2], - 1)]) initial_state
     = Inl (External ''ValueError'') \<and>
   qnode (gate broken_library (Hadamard 0)) (\<lambda>st. Inr (probs st)) sample_kernel
     = Inl (External ''DeviceError'') \<and>
   expval_both broken_library initial_state = Inl (External ''DeviceError'') \<and>
   sample_both broken_library 0 initial_state = Inl (External ''DeviceError'') \<and>
   circuit_hadamard broken_library sample_kernel = Inl (External ''DeviceError'') \<and>
   circuit_sample broken_library 0 sample_kernel = Inl (External ''DeviceError'') \<and>
   circuit_expval broken_library sample_kernel = Inl (External ''DeviceError'') \<and>
   circuit_gates broken_library sample_kernel = Inl (External ''DeviceError'') \<and>
   circuit_rotations broken_library sample_kernel 1 2 = Inl (External ''DeviceError'') \<and>
   average_loss_torch failing_library sample_kernel 0 [([1, 2], - 1)] = Inl (External ''ValueError'') \<and>
   closure failing_library plain_torch (sample_kernel, 0) = Inl (External ''ValueError'') \<and>
   closure_in_torch failing_library plain_torch sample_kernel 0 initial_state
     = Inl (External ''ValueError'') \<and>
   print_loss_torch failing_library (sample_kernel, 0 :: nat) = Inl (External ''ValueError'') \<and>
   torch_iteration failing_library plain_torch (sample_kernel, 0) = Inl (External ''ValueError'') \<and>
   torch_loop failing_library plain_torch (sample_kernel, 0) = Inl (External ''ValueError'')"
proof -
  let ?e = "External ''ValueError''"
  let ?n = "External ''NotImplementedError''"
  let ?d = "External ''DeviceError''"
  let ?x = "[1, 2] :: real list"
  let ?data = "[([1, 2], - 1)] :: real list dataset"
  define ko where "ko = sample_kernel\<lparr>var_opt := Some 0.05\<rparr>"
  note V = library_errors_propagate [of failing_library "[1, 2]" ?e 0 sample_kernel 0 ?data]
  note N = library_errors_propagate [of plain_library "[1, 2]" ?n 0 ko 0 ?data]
  note M = library_errors_propagate [of plain_library "[1, 2]" ?n 0 sample_kernel 0 ?data]
  note G = library_errors_propagate [of broken_library ?x ?d 0 sample_kernel 0 ?data]
  note V1 = V [THEN conjunct1, rule_format]
  note V2 = V [THEN conjunct2, THEN conjunct1, rule_format]
  note V3 = V [THEN conjunct2, THEN conjunct2, THEN conjunct1, rule_format]
  note V4 = V [THEN conjunct2, THEN conjunct2, THEN conjunct2, THEN conjunct1, rule_format]
  note V5 = V [THEN conjunct2, THEN conjunct2, THEN conjunct2, THEN conjunct2, THEN conjunct1,
      rule_format]
  note V6 = V [THEN conjunct2, THEN conjunct2, THEN conjunct2, THEN conjunct2, THEN conjunct2,
      THEN conjunct1, rule_format]
  note V7 = V [THEN conjunct2, THEN conjunct2, THEN conjunct2, THEN conjunct2, THEN conjunct2,
      THEN conjunct2, THEN conjunct1, rule_format]
  note N8 = N [THEN conjunct2, THEN conjunct2, THEN conjunct2, THEN conjunct2, THEN conjunct2,
      THEN conjunct2, THEN conjunct2, THEN conjunct1, rule_format]
  note M9 = M [THEN conjunct2, THEN conjunct2, THEN conjunct2, THEN conjunct2, THEN conjunct2,
      THEN conjunct2, THEN conjunct2, THEN conjunct2, THEN conjunct1, rule_format]
  note V10 = V [THEN conjunct2, THEN conjunct2, THEN conjunct2, THEN conjunct2, THEN conjunct2,
      THEN conjunct2, THEN conjunct2, THEN conjunct2, THEN conjunct2, THEN conjunct1,
      rule_format]
  note V11 = V [THEN conjunct2, THEN conjunct2, THEN conjunct2, THEN conjunct2, THEN conjunct2,
      THEN conjunct2, THEN conjunct2, THEN conjunct2, THEN conjunct2, THEN conjunct2,
      THEN conjunct1, rule_format]
  note V20 = V [THEN conjunct2, THEN conjunct2, THEN conjunct2, THEN conjunct2, THEN conjunct2,
      THEN conjunct2, THEN conjunct2, THEN conjunct2, THEN conjunct2, THEN conjunct2,
      THEN conjunct2, THEN conjunct2, THEN conjunct2, THEN conjunct2, THEN conjunct2,
      THEN conjunct2, THEN conjunct2, THEN conjunct2, THEN conjunct2, THEN conjunct1,
      rule_format]
  note V23 = V [THEN conjunct2, THEN conjunct2, THEN conjunct2, THEN conjunct2, THEN conjunct2,
      THEN conjunct2, THEN conjunct2, THEN conjunct2, THEN conjunct2, THEN conjunct2,
      THEN conjunct2, THEN conjunct2, THEN conjunct2, THEN conjunct2, THEN conjunct2,
      THEN conjunct2, THEN conjunct2, THEN conjunct2, THEN conjunct2, THEN conjunct2,
      THEN conjunct2, THEN conjunct2, THEN conjunct1, rule_format]
  note V21 = V [where 't = nat, THEN conjunct2, THEN conjunct2, THEN conjunct2, THEN conjunct2, THEN conjunct2,
      THEN conjunct2, THEN conjunct2, THEN conjunct2, THEN conjunct2, THEN conjunct2,
      THEN conjunct2, THEN conjunct2, THEN conjunct2, THEN conjunct2, THEN conjunct2,
      THEN conjunct2, THEN conjunct2, THEN conjunct2, THEN conjunct2, THEN conjunct2,
      THEN conjunct1, rule_format]
  note V22 = V [where 't = nat, THEN conjunct2, THEN conjunct2, THEN conjunct2, THEN conjunct2, THEN conjunct2,
      THEN conjunct2, THEN conjunct2, THEN conjunct2, THEN conjunct2, THEN conjunct2,
      THEN conjunct2, THEN conjunct2, THEN conjunct2, THEN conjunct2, THEN conjunct2,
      THEN conjunct2, THEN conjunct2, THEN conjunct2, THEN conjunct2, THEN conjunct2,
      THEN conjunct2, THEN conjunct1, rule_format]
  note V24 = V [where 't = nat, THEN conjunct2, THEN conjunct2, THEN conjunct2, THEN conjunct2, THEN conjunct2,
      THEN conjunct2, THEN conjunct2, THEN conjunct2, THEN conjunct2, THEN conjunct2,
      THEN conjunct2, THEN conjunct2, THEN conjunct2, THEN conjunct2, THEN conjunct2,
      THEN conjunct2, THEN conjunct2, THEN conjunct2, THEN conjunct2, THEN conjunct2,
      THEN conjunct2, THEN conjunct2, THEN conjunct2, THEN conjunct1, rule_format]
  note V25 = V [where 't = nat, THEN conjunct2, THEN conjunct2, THEN conjunct2, THEN conjunct2, THEN conjunct2,
      THEN conjunct2, THEN conjunct2, THEN conjunct2, THEN conjunct2, THEN conjunct2,
      THEN conjunct2, THEN conjunct2, THEN conjunct2, THEN conjunct2, THEN conjunct2,
      THEN conjunct2, THEN conjunct2, THEN conjunct2, THEN conjunct2, THEN conjunct2,
      THEN conjunct2, THEN conjunct2, THEN conjunct2, THEN conjunct2, rule_format]
  note G15 = G [THEN conjunct2, THEN conjunct2, THEN conjunct2, THEN conjunct2, THEN conjunct2,
      THEN conjunct2, THEN conjunct2, THEN conjunct2, THEN conjunct2, THEN conjunct2,
      THEN conjunct2, THEN conjunct2, THEN conjunct2, THEN conjunct2, THEN conjunct1,
      rule_format]
  note G12 = G [THEN conjunct2, THEN conjunct2, THEN conjunct2, THEN conjunct2, THEN conjunct2,
      THEN conjunct2, THEN conjunct2, THEN conjunct2, THEN conjunct2, THEN conjunct2,
      THEN conjunct2, THEN conjunct1, rule_format]
  note G13 = G [THEN conjunct2, THEN conjunct2, THEN conjunct2, THEN conjunct2, THEN conjunct2,
      THEN conjunct2, THEN conjunct2, THEN conjunct2, THEN conjunct2, THEN conjunct2,
      THEN conjunct2, THEN conjunct2, THEN conjunct1, rule_format]
  note G14 = G [THEN conjunct2, THEN conjunct2, THEN conjunct2, THEN conjunct2, THEN conjunct2,
      THEN conjunct2, THEN conjunct2, THEN conjunct2, THEN conjunct2, THEN conjunct2,
      THEN conjunct2, THEN conjunct2, THEN conjunct2, THEN conjunct1, rule_format]
  note G16 = G [THEN conjunct2, THEN conjunct2, THEN conjunct2, THEN conjunct2, THEN conjunct2,
      THEN conjunct2, THEN conjunct2, THEN conjunct2, THEN conjunct2, THEN conjunct2,
      THEN conjunct2, THEN conjunct2, THEN conjunct2, THEN conjunct2, THEN conjunct2,
      THEN conjunct1, rule_format]
  note G17 = G [THEN conjunct2, THEN conjunct2, THEN conjunct2, THEN conjunct2, THEN conjunct2,
      THEN conjunct2, THEN conjunct2, THEN conjunct2, THEN conjunct2, THEN conjunct2,
      THEN conjunct2, THEN conjunct2, THEN conjunct2, THEN conjunct2, THEN conjunct2,
      THEN conjunct2, THEN conjunct1, rule_format]
  note G18 = G [THEN conjunct2, THEN conjunct2, THEN conjunct2, THEN conjunct2, THEN conjunct2,
      THEN conjunct2, THEN conjunct2, THEN conjunct2, THEN conjunct2, THEN conjunct2,
      THEN conjunct2, THEN conjunct2, THEN conjunct2, THEN conjunct2, THEN conjunct2,
      THEN conjunct2, THEN conjunct2, THEN conjunct1, rule_format]
  note G19 = G [THEN conjunct2, THEN conjunct2, THEN conjunct2, THEN conjunct2, THEN conjunct2,
      THEN conjunct2, THEN conjunct2, THEN conjunct2, THEN conjunct2, THEN conjunct2,
      THEN conjunct2, THEN conjunct2, THEN conjunct2, THEN conjunct2, THEN conjunct2,
      THEN conjunct2, THEN conjunct2, THEN conjunct2, THEN conjunct1, rule_format]
  have ae: "angle_embedding failing_library [1, 2] [0, 1] initial_state = Inl ?e"
    by (simp add: failing_library_fields)
  from V1 ae have qm: "quantum_model failing_library sample_kernel [1, 2] 0 = Inl ?e"
    by simp
  from V2 qm have mwb: "model_with_bias failing_library sample_kernel [1, 2] 0 0 = Inl ?e"
    by simp
  have "sum_losses failing_library 0 0 [] sample_kernel 0 = Inr (sample_kernel, 0)"
    by simp
  with mwb have "average_loss failing_library sample_kernel 0 0 ([] @ ([1, 2], - 1) # []) = Inl ?e"
    by (intro V3 conjI)
  then have al: "average_loss failing_library sample_kernel 0 0 ?data = Inl ?e"
    by simp
  have "grad_argnum0 failing_library
      (\<lambda>w' b' data'. from_kernel sample_kernel (\<lambda>k'. average_loss failing_library k' w' b' data'))
      0 0 ?data (device sample_kernel) = Inl ?e"
    by (simp add: failing_library_fields difference_w_def from_kernel_def average_loss_failing
        and_then_simps)
  then have gw: "gradient_fn_w failing_library sample_kernel 0 0 ?data = Inl ?e"
    by (rule V4)
  have "grad_argnum1 failing_library
      (\<lambda>w' b' data'. from_kernel sample_kernel (\<lambda>k'. average_loss failing_library k' w' b' data'))
      0 0 ?data (device sample_kernel) = Inl ?e"
    by (simp add: failing_library_fields difference_b_def from_kernel_def average_loss_failing
        and_then_simps)
  then have gb: "gradient_fn_b failing_library sample_kernel 0 0 ?data = Inl ?e"
    by (rule V5)
  from gw sample_kernel_fields(1-3) have ti: "training_iteration failing_library sample_kernel = Inl ?e"
    by (intro V6) simp
  have "(0::nat) < 15" and "for_range 0 (training_iteration failing_library) sample_kernel = Inr sample_kernel"
    by simp_all
  with ti have tl: "training_loop failing_library sample_kernel = Inl ?e"
    by (intro V7 conjI)
  have ko_fields: "var_opt ko = Some 0.05" "var_w ko = Some 0" "var_b ko = Some 0"
    by (simp_all add: ko_def sample_kernel_fields)
  have sc: "step_and_cost plain_library 0.05 (objective plain_library ko) 0 0 (device ko) = Inl ?n"
    by (simp add: plain_library_fields)
  with ko_fields have oi: "optimizer_iteration plain_library ko = Inl ?n"
    by (intro N8 conjI)
  have "''qml'' \<in> bound sample_kernel" and "(0::nat) < 15"
    and "for_range 0 (optimizer_iteration plain_library) (sample_kernel\<lparr>var_opt := Some 0.05\<rparr>) = Inr ko"
    by (simp_all add: sample_kernel_fields ko_def)
  with oi have co: "cell_optimizer plain_library sample_kernel = Inl ?n"
    by (intro M9 conjI)
  have dk: "sample_kernel\<lparr>device := initial_state\<rparr> = sample_kernel"
    by (simp add: sample_kernel_def session_def)
  have als: "average_loss failing_library (sample_kernel\<lparr>device := initial_state\<rparr>) 0 0 ?data = Inl ?e"
    by (simp add: dk al)
  from sample_kernel_fields(10,3) als
  have ob: "objective failing_library sample_kernel 0 0 initial_state = Inl ?e"
    by (intro V10 conjI)
  from als have fk: "from_kernel sample_kernel (\<lambda>k'. average_loss failing_library k' 0 0 ?data)
      initial_state = Inl ?e"
    by (rule V11)
  have gh: "gate broken_library (Hadamard 0) initial_state = Inl ?d"
    by (simp add: broken_library_fields)
  then have ch: "circuit_hadamard broken_library sample_kernel = Inl ?d"
    by (rule G15)
  from gh have qn: "qnode (gate broken_library (Hadamard 0)) (\<lambda>st. Inr (probs st)) sample_kernel
      = Inl ?d"
    by (intro G12 disjI1)
  have "expval_pauliz broken_library 0 initial_state = Inl ?d"
    by (simp add: broken_library_fields)
  then have eb: "expval_both broken_library initial_state = Inl ?d"
    by (intro G13 disjI1)
  have "sample_pauliz broken_library 0 0 initial_state = Inl ?d"
    by (simp add: broken_library_fields)
  then have sb: "sample_both broken_library 0 initial_state = Inl ?d"
    by (intro G14 disjI1)
  have "sample_both broken_library 0 (mat_vec U initial_state) = Inl ?d"
    by (simp add: sample_both_def broken_library_fields and_then_simps)
  then have cs: "circuit_sample broken_library 0 sample_kernel = Inl ?d"
    by (rule G16)
  have "expval_both broken_library (mat_vec U initial_state) = Inl ?d"
    by (simp add: expval_both_def broken_library_fields and_then_simps)
  then have ce: "circuit_expval broken_library sample_kernel = Inl ?d"
    by (rule G17)
  have "gate broken_library (PauliX 0) initial_state = Inl ?d"
    by (simp add: broken_library_fields)
  then have cg: "circuit_gates broken_library sample_kernel = Inl ?d"
    by (intro G18 disjI1)
  have "gate broken_library (RX 1 0) initial_state = Inl ?d"
    by (simp add: broken_library_fields)
  then have cr: "circuit_rotations broken_library sample_kernel 1 2 = Inl ?d"
    by (intro G19 disjI1)
  have "sum_losses_torch failing_library 0 [] sample_kernel 0 = Inr (sample_kernel, 0)"
    by simp
  with qm have "average_loss_torch failing_library sample_kernel 0 ([] @ ([1, 2], - 1) # []) = Inl ?e"
    by (intro V20 conjI)
  then have at: "average_loss_torch failing_library sample_kernel 0 ?data = Inl ?e"
    by simp
  have zg: "zero_grad plain_torch (0 :: nat) = Inr 0"
    by (simp add: plain_torch_fields)
  from zg sample_kernel_fields(1,3) at
  have "zero_grad plain_torch 0 = Inl ?e \<or>
      (zero_grad plain_torch 0 = Inr 0 \<and> var_w sample_kernel = Some 0 \<and>
         var_data sample_kernel = Some ?data \<and>
         average_loss_torch failing_library sample_kernel 0 ?data = Inl ?e) \<or>
      (zero_grad plain_torch 0 = Inr 0 \<and> var_w sample_kernel = Some 0 \<and>
         var_data sample_kernel = Some ?data \<and>
         average_loss_torch failing_library sample_kernel 0 ?data = Inr (sample_kernel, 0) \<and>
         backward plain_torch
           (\<lambda>w'. from_kernel sample_kernel (\<lambda>k'. average_loss_torch failing_library k' w' ?data))
           0 0 (device sample_kernel) = Inl ?e)"
    by simp
  then have cl: "closure failing_library plain_torch (sample_kernel, 0) = Inl ?e"
    by (rule V21)
  then have "closure failing_library plain_torch (sample_kernel\<lparr>device := initial_state\<rparr>, 0) = Inl ?e"
    by (simp add: dk)
  then have ct: "closure_in_torch failing_library plain_torch sample_kernel 0 initial_state = Inl ?e"
    by (rule V22)
  from sample_kernel_fields(1,3) at
  have pl: "print_loss_torch failing_library (sample_kernel, 0 :: nat) = Inl ?e"
    by (intro V23 conjI)
  have "adam_step plain_torch (closure_in_torch failing_library plain_torch sample_kernel) 0 0
      (device sample_kernel) = Inl ?e"
    by (simp add: plain_torch_fields sample_kernel_fields ct and_then_simps)
  with sample_kernel_fields(1)
  have it: "torch_iteration failing_library plain_torch (sample_kernel, 0) = Inl ?e"
    by (intro V24 conjI disjI1)
  have "(0::nat) < 15"
    and "for_range 0 (torch_iteration failing_library plain_torch) (sample_kernel, 0 :: nat)
      = Inr (sample_kernel, 0)"
    by simp_all
  with it have lp: "torch_loop failing_library plain_torch (sample_kernel, 0) = Inl ?e"
    by (intro V25 conjI)
  from qm mwb al gw gb ti tl oi co ob fk qn eb sb ch cs ce cg cr at cl ct pl it lp show ?thesis
    unfolding ko_def by (intro conjI)
qed




text \<open>
  C6, as amended. The cells are not independent: each computes its value from the kernel
  the earlier cells left. The \<^verbatim>\<open>dev.state\<close> cell raises \<^verbatim>\<open>NameError\<close> while \<^verbatim>\<open>dev\<close> is
  unbound and otherwise returns the state vector the device holds. The optimizer cell
  raises \<^verbatim>\<open>NameError\<close> while \<^verbatim>\<open>qml\<close>, \<^verbatim>\<open>w\<close> or \<^verbatim>\<open>b\<close> is unbound; otherwise its first step
  is the library's \<^verbatim>\<open>step_and_cost\<close> on the \<^verbatim>\<open>w\<close> and \<^verbatim>\<open>b\<close> found in the kernel, and its
  objective raises \<^verbatim>\<open>NameError\<close> while \<^verbatim>\<open>average_loss\<close> or \<^verbatim>\<open>data\<close> is unbound.
\<close>

theorem cells_read_the_kernel:
  "(''dev'' \<notin> bound k \<longrightarrow> cell_dev_state k = Inl (NameError ''dev'')) \<and>
   (''dev'' \<in> bound k \<longrightarrow> cell_dev_state k = Inr (k, Amplitudes (device k))) \<and>
   (''qml'' \<notin> bound k \<longrightarrow> cell_optimizer L k = Inl (NameError ''qml'')) \<and>
   (''qml'' \<in> bound k \<and> var_w k = None \<longrightarrow> cell_optimizer L k = Inl (NameError ''w'')) \<and>
   (\<forall>w. ''qml'' \<in> bound k \<and> var_w k = Some w \<and> var_b k = None \<longrightarrow>
      cell_optimizer L k = Inl (NameError ''b'')) \<and>
   (\<forall>w b. ''qml'' \<in> bound k \<and> var_w k = Some w \<and> var_b k = Some b \<longrightarrow>
      cell_optimizer L k =
        and_then (on_device (step_and_cost L 0.05 (objective L (k\<lparr>var_opt := Some 0.05\<rparr>)) w b)
                    (k\<lparr>var_opt := Some 0.05\<rparr>))
          (\<lambda>(k', (w', b'), cst).
             and_then (for_range 14 (optimizer_iteration L)
                         (k'\<lparr>var_w := Some w', var_b := Some b', stdout := stdout k' @ [cst]\<rparr>))
               (\<lambda>k''. Inr (k'', Nothing)))) \<and>
   (\<forall>w1 b1 st. ''average_loss'' \<notin> bound k \<longrightarrow>
      objective L k w1 b1 st = Inl (NameError ''average_loss'')) \<and>
   (\<forall>w1 b1 st. ''average_loss'' \<in> bound k \<and> var_data k = None \<longrightarrow>
      objective L k w1 b1 st = Inl (NameError ''data''))"
proof (intro conjI allI impI)
  assume "''dev'' \<notin> bound k"
  then show "cell_dev_state k = Inl (NameError ''dev'')" by (simp add: cell_dev_state_def)
next
  assume "''dev'' \<in> bound k"
  then show "cell_dev_state k = Inr (k, Amplitudes (device k))" by (simp add: cell_dev_state_def)
next
  assume "''qml'' \<notin> bound k"
  then show "cell_optimizer L k = Inl (NameError ''qml'')" by (simp add: cell_optimizer_def)
next
  assume "''qml'' \<in> bound k \<and> var_w k = None"
  then show "cell_optimizer L k = Inl (NameError ''w'')" by (simp add: cell_optimizer_no_w)
next
  fix w
  assume "''qml'' \<in> bound k \<and> var_w k = Some w \<and> var_b k = None"
  then show "cell_optimizer L k = Inl (NameError ''b'')" by (simp add: cell_optimizer_no_b)
next
  fix w b
  assume "''qml'' \<in> bound k \<and> var_w k = Some w \<and> var_b k = Some b"
  then have "''qml'' \<in> bound k" "var_w k = Some w" "var_b k = Some b" by simp_all
  then show "cell_optimizer L k =
        and_then (on_device (step_and_cost L 0.05 (objective L (k\<lparr>var_opt := Some 0.05\<rparr>)) w b)
                    (k\<lparr>var_opt := Some 0.05\<rparr>))
          (\<lambda>(k', (w', b'), cst).
             and_then (for_range 14 (optimizer_iteration L)
                         (k'\<lparr>var_w := Some w', var_b := Some b', stdout := stdout k' @ [cst]\<rparr>))
               (\<lambda>k''. Inr (k'', Nothing)))"
    by (rule cell_optimizer_first_step)
next
  fix w1 b1 st
  assume "''average_loss'' \<notin> bound k"
  then show "objective L k w1 b1 st = Inl (NameError ''average_loss'')"
    by (rule objective_reads_names)
next
  fix w1 b1 st
  assume "''average_loss'' \<in> bound k \<and> var_data k = None"
  then show "objective L k w1 b1 st = Inl (NameError ''data'')"
    by (simp add: objective_reads_names)
qed

theorem cells_read_the_kernel_witness:
  "''dev'' \<notin> bound (fresh_kernel :: (real list, real) kernel) \<and>
   cell_dev_state (fresh_kernel :: (real list, real) kernel) = Inl (NameError ''dev'') \<and>
   ''dev'' \<in> bound session \<and>
   cell_dev_state session = Inr (session, Amplitudes [1, 0, 0, 0]) \<and>
   ''qml'' \<notin> bound (fresh_kernel :: (real list, real) kernel) \<and>
   cell_optimizer plain_library fresh_kernel = Inl (NameError ''qml'') \<and>
   ''qml'' \<in> bound session \<and> var_w session = None \<and>
   cell_optimizer plain_library session = Inl (NameError ''w'') \<and>
   var_w (session\<lparr>var_w := Some 0\<rparr>) = Some 0 \<and> var_b (session\<lparr>var_w := Some 0\<rparr>) = None \<and>
   cell_optimizer plain_library (session\<lparr>var_w := Some 0\<rparr>) = Inl (NameError ''b'') \<and>
   var_w sample_kernel = Some 0 \<and> var_b sample_kernel = Some 0 \<and>
   cell_optimizer plain_library sample_kernel = Inl (External ''NotImplementedError'') \<and>
   ''average_loss'' \<notin> bound session \<and>
   objective plain_library session 0 0 initial_state = Inl (NameError ''average_loss'') \<and>
   ''average_loss'' \<in> bound (sample_kernel\<lparr>var_data := None\<rparr>) \<and>
   objective plain_library (sample_kernel\<lparr>var_data := None\<rparr>) 0 0 initial_state
     = Inl (NameError ''data'')"
proof -
  note F = cells_read_the_kernel [of "fresh_kernel :: (real list, real) kernel" plain_library]
  note S = cells_read_the_kernel [of session plain_library]
  note W = cells_read_the_kernel [of "session\<lparr>var_w := Some 0\<rparr>" plain_library]
  note K = cells_read_the_kernel [of sample_kernel plain_library]
  note D = cells_read_the_kernel [of "sample_kernel\<lparr>var_data := None\<rparr>" plain_library]
  have f: "''dev'' \<notin> bound (fresh_kernel :: (real list, real) kernel)"
    "''qml'' \<notin> bound (fresh_kernel :: (real list, real) kernel)"
    by (simp_all add: fresh_kernel_def)
  have s: "''dev'' \<in> bound session" "''qml'' \<in> bound session" "var_w session = None"
    "''average_loss'' \<notin> bound session" "device session = [1, 0, 0, 0]"
    by (simp_all add: session_def fresh_kernel_def initial_state_def)
  have w: "''qml'' \<in> bound (session\<lparr>var_w := Some 0\<rparr>)" "var_w (session\<lparr>var_w := Some 0\<rparr>) = Some 0"
    "var_b (session\<lparr>var_w := Some 0\<rparr>) = None"
    by (simp_all add: session_def fresh_kernel_def)
  have d: "''average_loss'' \<in> bound (sample_kernel\<lparr>var_data := None\<rparr>)"
    "var_data (sample_kernel\<lparr>var_data := None\<rparr>) = None"
    by (simp_all add: sample_kernel_fields)
  from F [THEN conjunct1] f have c1: "cell_dev_state (fresh_kernel :: (real list, real) kernel) = Inl (NameError ''dev'')"
    by simp
  from S [THEN conjunct2, THEN conjunct1] s have c2: "cell_dev_state session = Inr (session, Amplitudes [1, 0, 0, 0])"
    by simp
  from F [THEN conjunct2, THEN conjunct2, THEN conjunct1] f
  have c3: "cell_optimizer plain_library fresh_kernel = Inl (NameError ''qml'')"
    by simp
  from S [THEN conjunct2, THEN conjunct2, THEN conjunct2, THEN conjunct1] s
  have c4: "cell_optimizer plain_library session = Inl (NameError ''w'')"
    by simp
  from W [THEN conjunct2, THEN conjunct2, THEN conjunct2, THEN conjunct2, THEN conjunct1] w
  have c5: "cell_optimizer plain_library (session\<lparr>var_w := Some 0\<rparr>) = Inl (NameError ''b'')"
    by simp
  from K [THEN conjunct2, THEN conjunct2, THEN conjunct2, THEN conjunct2, THEN conjunct2,
      THEN conjunct1, rule_format, of 0 0] sample_kernel_fields
  have c6: "cell_optimizer plain_library sample_kernel = Inl (External ''NotImplementedError'')"
    by (simp add: on_device_def plain_library_fields and_then_simps)
  from S [THEN conjunct2, THEN conjunct2, THEN conjunct2, THEN conjunct2, THEN conjunct2,
      THEN conjunct2, THEN conjunct1] s
  have c7: "objective plain_library session 0 0 initial_state = Inl (NameError ''average_loss'')"
    by simp
  from D [THEN conjunct2, THEN conjunct2, THEN conjunct2, THEN conjunct2, THEN conjunct2,
      THEN conjunct2, THEN conjunct2] d
  have c8: "objective plain_library (sample_kernel\<lparr>var_data := None\<rparr>) 0 0 initial_state
     = Inl (NameError ''data'')"
    by simp
  from f s w d c1 c2 c3 c4 c5 c6 c7 c8 sample_kernel_fields(1,2) show ?thesis
    by (intro conjI)
qed

text \<open>
  The claim as stated fails on the cells it names. In a fresh kernel the \<^verbatim>\<open>dev.state\<close>
  cell raises \<^verbatim>\<open>NameError\<close>; after the cells before it, it returns \<open>[1, 0, 0, 0]\<close>;
  after the \<^verbatim>\<open>QubitUnitary\<close> cell as well, \<open>[0, s, s, 0]\<close>. The optimizer cell raises
  \<^verbatim>\<open>NameError\<close> for \<^verbatim>\<open>qml\<close> in a fresh kernel and for \<^verbatim>\<open>w\<close> after the import alone.
\<close>

theorem cells_are_independent_counterexample:
  "map_sum id snd (run_cells [cell_dev_state] (fresh_kernel :: (real list, real) kernel))
     = Inl (NameError ''dev'') \<and>
   map_sum id snd (run_cells [cell_import, cell_device, cell_initial, cell_dev_state]
      (fresh_kernel :: (real list, real) kernel))
     = Inr (Amplitudes [1, 0, 0, 0]) \<and>
   map_sum id snd (run_cells [cell_import, cell_device, cell_initial, cell_unitary, cell_dev_state]
      (fresh_kernel :: (real list, real) kernel))
     = Inr (Amplitudes [0, complex_of_real s, complex_of_real s, 0]) \<and>
   map_sum id snd (run_cells [cell_optimizer plain_library] fresh_kernel) = Inl (NameError ''qml'') \<and>
   map_sum id snd (run_cells [cell_import, cell_optimizer plain_library] fresh_kernel)
     = Inl (NameError ''w'')"
proof -
  have split3: "run_cells (cell_import # cell_device # cell_initial # c # cs) k =
      (case run_cells [cell_import, cell_device, cell_initial] k of
         Inl e \<Rightarrow> Inl e
       | Inr (k', out) \<Rightarrow> run_cells (c # cs) k')"
    for c :: "(real list, real) cell" and cs k
    by (simp split: sum.splits)
  have a: "run_cells [cell_dev_state] (fresh_kernel :: (real list, real) kernel) = Inl (NameError ''dev'')"
    by (simp add: cell_dev_state_def fresh_kernel_def)
  have sd: "cell_dev_state session = Inr (session, Amplitudes [1, 0, 0, 0])"
    by (simp add: cell_dev_state_def session_def initial_state_def)
  have b: "run_cells [cell_import, cell_device, cell_initial, cell_dev_state] fresh_kernel
      = Inr (session, Amplitudes [1, 0, 0, 0])"
    unfolding split3 run_to_session by (simp add: sd)
  define ku where "ku = session\<lparr>bound := bound session \<union> {''s'', ''U'', ''circuit''},
      device := [0, complex_of_real s, complex_of_real s, 0]\<rparr>"
  have cu: "cell_unitary session = Inr (ku, Probabilities [0, 1 / 2, 1 / 2, 0])"
    unfolding ku_def by (rule cell_unitary_session)
  have ud: "cell_dev_state ku = Inr (ku, Amplitudes [0, complex_of_real s, complex_of_real s, 0])"
    by (simp add: cell_dev_state_def ku_def session_def)
  have c: "run_cells [cell_import, cell_device, cell_initial, cell_unitary, cell_dev_state] fresh_kernel
      = Inr (ku, Amplitudes [0, complex_of_real s, complex_of_real s, 0])"
    unfolding split3 run_to_session by (simp add: cu ud)
  have d: "run_cells [cell_optimizer plain_library] fresh_kernel = Inl (NameError ''qml'')"
    by (simp add: cell_optimizer_def fresh_kernel_def)
  have "cell_optimizer plain_library (fresh_kernel\<lparr>bound := {''qml'', ''np''}\<rparr>) = Inl (NameError ''w'')"
    by (rule cell_optimizer_no_w) (simp_all add: fresh_kernel_def)
  then have e: "run_cells [cell_import, cell_optimizer plain_library] fresh_kernel = Inl (NameError ''w'')"
    by (simp add: cell_import_def) (simp add: fresh_kernel_def)
  show ?thesis
    unfolding a b c d e by simp
qed

text \<open>
  C7. With an empty dataset \<^verbatim>\<open>average_loss\<close> raises \<^verbatim>\<open>ZeroDivisionError\<close>, whatever
  \<^verbatim>\<open>w\<close> and \<^verbatim>\<open>b\<close> are: no sample is added to \<^verbatim>\<open>c\<close> and \<^verbatim>\<open>c/len(data)\<close> is unguarded.
\<close>

theorem average_loss_empty_raises:
  "average_loss L k w b [] = Inl ZeroDivisionError"
  by (simp add: average_loss_def)

text \<open>
  C8. \<^verbatim>\<open>model_with_bias(x, w, b)\<close> is \<^verbatim>\<open>quantum_model(x, w) + b\<close>: when the quantum node
  returns \<open>v\<close> the result is \<open>v + b\<close> (in the same kernel), when it raises the same
  exception is raised, and with \<open>b = 0\<close> the two calls agree in every case.
\<close>

theorem model_with_bias_adds_bias:
  "(\<forall>k' v. quantum_model L k x w = Inr (k', v) \<longrightarrow> model_with_bias L k x w b = Inr (k', v + b)) \<and>
   (\<forall>e. quantum_model L k x w = Inl e \<longrightarrow> model_with_bias L k x w b = Inl e) \<and>
   model_with_bias L k x w 0 = quantum_model L k x w"
  by (auto simp: model_with_bias_def split: sum.splits)

theorem model_with_bias_adds_bias_witness:
  "quantum_model plain_library session [1, 2] 0 = Inr (session, 1) \<and>
   model_with_bias plain_library session [1, 2] 0 3 = Inr (session, 4) \<and>
   quantum_model failing_library session [1, 2] 0 = Inl (External ''ValueError'') \<and>
   model_with_bias failing_library session [1, 2] 0 3 = Inl (External ''ValueError'') \<and>
   model_with_bias plain_library session [1, 2] 0 0 = quantum_model plain_library session [1, 2] 0"
proof -
  have q: "quantum_model plain_library session [1, 2] 0 = Inr (session, 1)"
    by (simp add: quantum_model_plain) (simp add: session_def)
  have f: "quantum_model failing_library session [1, 2] 0 = Inl (External ''ValueError'')"
    by (simp add: quantum_model_def failing_library_def)
  from model_with_bias_adds_bias [of plain_library session "[1, 2]" 0 3] q
  have "model_with_bias plain_library session [1, 2] 0 3 = Inr (session, 4)"
    by simp
  moreover from model_with_bias_adds_bias [of failing_library session "[1, 2]" 0 3] f
  have "model_with_bias failing_library session [1, 2] 0 3 = Inl (External ''ValueError'')"
    by simp
  moreover from model_with_bias_adds_bias [of plain_library session "[1, 2]" 0 3]
  have "model_with_bias plain_library session [1, 2] 0 0 = quantum_model plain_library session [1, 2] 0"
    by simp
  ultimately show ?thesis using q f by simp
qed

text \<open>
  C9. \<^verbatim>\<open>loss(a, b) = (a - b)**2\<close> is non-negative and symmetric. For a non-empty
  dataset, a value returned by \<^verbatim>\<open>average_loss\<close> is non-negative; and when the quantum
  node returns on every sample, \<^verbatim>\<open>average_loss\<close> does return a value.
\<close>

theorem loss_nonnegative_symmetric:
  "0 \<le> loss a c \<and> loss a c = loss c a \<and>
   (\<forall>k' v. data \<noteq> [] \<and> average_loss L k w b data = Inr (k', v) \<longrightarrow> 0 \<le> v) \<and>
   (data \<noteq> [] \<and> (\<forall>x y. (x, y) \<in> set data \<longrightarrow> (\<exists>k1 v1. quantum_model L k x w = Inr (k1, v1)))
      \<longrightarrow> (\<exists>k' v. average_loss L k w b data = Inr (k', v) \<and> 0 \<le> v))"
proof -
  have partial: "0 \<le> v" if "data \<noteq> []" and "average_loss L k w b data = Inr (k', v)" for k' v
  proof -
    from that obtain t where "sum_losses L w b data k 0 = Inr (k', t)" and v: "v = t / real (length data)"
      by (auto simp: average_loss_def split: sum.splits if_splits)
    from sum_losses_lower [OF this(1)] v show ?thesis by simp
  qed
  have total: "\<exists>k' v. average_loss L k w b data = Inr (k', v) \<and> 0 \<le> v"
    if ne: "data \<noteq> []"
      and ok: "\<forall>x y. (x, y) \<in> set data \<longrightarrow> (\<exists>k1 v1. quantum_model L k x w = Inr (k1, v1))"
  proof -
    from sum_losses_returns [OF ok, of b k 0] obtain k' t where "sum_losses L w b data k 0 = Inr (k', t)"
      by blast
    with ne have "average_loss L k w b data = Inr (k', t / real (length data))"
      by (simp add: average_loss_def)
    with partial [OF ne this] show ?thesis by blast
  qed
  show ?thesis
    using partial total by (simp add: loss_nonneg loss_def power2_commute)
qed

theorem loss_nonnegative_symmetric_witness:
  "0 \<le> loss 3 5 \<and> loss 3 5 = loss 5 3 \<and> loss 3 5 = 4 \<and>
   [([1, 2], - 1)] \<noteq> ([] :: real list dataset) \<and>
   average_loss plain_library session 0 0 [([1, 2], - 1)] = Inr (session, 4) \<and> (0::real) \<le> 4 \<and>
   (\<exists>k1 v1. quantum_model plain_library session [1, 2] 0 = Inr (k1, v1)) \<and>
   (\<exists>k' v. average_loss plain_library session 0 0 [([1, 2], - 1)] = Inr (k', v) \<and> 0 \<le> v)"
proof -
  have a: "average_loss plain_library session 0 0 [([1, 2], - 1)] = Inr (session, 4)"
    by (simp add: average_loss_plain) (simp add: session_def)
  have q: "\<exists>k1 v1. quantum_model plain_library session [1, 2] 0 = Inr (k1, v1)"
    by (simp add: quantum_model_plain)
  note T = loss_nonnegative_symmetric [of 3 5 "[([1, 2], - 1)]" plain_library session 0 0]
  from T have "0 \<le> loss 3 5 \<and> loss 3 5 = loss 5 3" by simp
  moreover have "loss 3 5 = 4" by (simp add: loss_def)
  moreover from T a have "(0::real) \<le> 4" by simp
  moreover from T q have "\<exists>k' v. average_loss plain_library session 0 0 [([1, 2], - 1)] = Inr (k', v) \<and> 0 \<le> v"
    by simp
  ultimately show ?thesis using a q by simp
qed

end
